theory Spec2Isabelle
  imports
    Complex_Main
    "HOL-Library.Multiset"
    "HOL-Library.Char_ord"
    "HOL-Library.List_Lexorder"
    "HOL-Library.Product_Lexorder"
begin

section \<open>Values read from and written to YAML\<close>

text \<open>
  Python floats are observed by the scripts only through \<open>==\<close> against
  \<open>float("inf")\<close>, \<open>float("-inf")\<close> and \<open>float("nan")\<close>, and by the
  JSON encoder's finiteness test. A float is therefore a finite rational or one of the
  three non-finite values. \<open>float_eq\<close> is Python's \<open>==\<close> on floats: IEEE 754
  equality, under which NaN is equal to nothing, itself included.
\<close>

datatype pyfloat = Finite rat | PosInf | NegInf | NaN

fun float_eq :: "pyfloat \<Rightarrow> pyfloat \<Rightarrow> bool" where
  "float_eq NaN _ = False"
| "float_eq _ NaN = False"
| "float_eq a b = (a = b)"

text \<open>
  A \<open>datetime\<close> is observed only through \<open>isoformat()\<close>; it is represented by
  the ISO-8601 text that call returns.
\<close>

datatype datetime = DateTime (isoformat: string)

text \<open>
  A loaded YAML document. Mappings keep their insertion order, as Python dicts do, and
  are keyed by strings.
\<close>

datatype yaml =
    YNull
  | YBool bool
  | YInt int
  | YFloat pyfloat
  | YStr string
  | YTime datetime
  | YList "yaml list"
  | YDict "(string \<times> yaml) list"

text \<open>
  \<open>d.get(k)\<close>, \<open>d.get(k, default)\<close> and \<open>d[k] = v\<close> on a dict, as an
  association list in insertion order: assigning to a key that is present keeps its
  place, a new key goes to the end.
\<close>

definition dict_get :: "('k \<times> 'v) list \<Rightarrow> 'k \<Rightarrow> 'v option" where
  "dict_get d k = map_of d k"

definition dict_get_default :: "('k \<times> 'v) list \<Rightarrow> 'k \<Rightarrow> 'v \<Rightarrow> 'v" where
  "dict_get_default d k dflt = (case map_of d k of Some v \<Rightarrow> v | None \<Rightarrow> dflt)"

fun dict_set :: "('k \<times> 'v) list \<Rightarrow> 'k \<Rightarrow> 'v \<Rightarrow> ('k \<times> 'v) list" where
  "dict_set [] k v = [(k, v)]"
| "dict_set ((k', v') # d) k v = (if k' = k then (k, v) # d else (k', v') # dict_set d k v)"

section \<open>Ingest: \<open>scripts/update_external_resources.py\<close>\<close>

subsection \<open>Resource and version records\<close>

text \<open>
  A version record, with the keys the scanner writes (lines 138 to 147). A key that may
  be missing is an \<open>option\<close>: \<open>None\<close> is the missing key, which is also what
  \<open>v.get(key)\<close> returns for it. \<open>rdf_source\<close> is a string in every record the
  scanner builds; HOL equality on it is Python's \<open>==\<close>.
\<close>

record version =
  version_id :: string
  v_doi :: string
  owners :: "yaml option"
  created :: string
  v_status :: string
  rdf_source :: "string option"
  v_name :: yaml
  version_name :: string

text \<open>
  A resource record (lines 55 to 61). For \<open>doi\<close>, \<open>None\<close> is the missing key,
  \<open>Some None\<close> the key holding null (the \<open>resource_doi\<close> of line 59 is optional).
\<close>

record resource =
  r_status :: string
  r_versions :: "version list"
  r_id :: "string option"
  r_doi :: "string option option"
  r_type :: "yaml option"
  r_owners :: "yaml option"

text \<open>The content of a \<open>resource.yaml\<close> file: a mapping, or anything else.\<close>

datatype resource_file = NotADict | Res resource

text \<open>The files under \<open>collection/\<close> and \<open>dist/\<close>, by path.\<close>

type_synonym store = "string \<Rightarrow> resource_file option"

text \<open>The Python exceptions the scripts can meet.\<close>

datatype error =
    AssertionError
  | ValueError string
  | TypeError
  | FileExistsError
  | RequestException
  | YAMLError
  | AttributeError

datatype outcome = OldHit | Blocked | Merged resource

subsection \<open>\<open>update_resource\<close>\<close>

text \<open>
  \<open>list.sort(key=..., reverse=True)\<close>: CPython reverses the list, sorts it
  ascending with its stable sort, and reverses the result, so that equal keys keep
  their original order.
\<close>

definition sort_reverse :: "('a \<Rightarrow> 'k::linorder) \<Rightarrow> 'a list \<Rightarrow> 'a list" where
  "sort_reverse f xs = rev (sort_key f (rev xs))"

text \<open>The loop of lines 42 to 47: is the fetched version known?\<close>

definition is_known :: "string \<Rightarrow> version \<Rightarrow> version list \<Rightarrow> bool" where
  "is_known vid new_version known =
     list_ex (\<lambda>known_version.
        version_id known_version = vid \<and> rdf_source new_version = rdf_source known_version)
       known"

text \<open>
  Modelled from the spec: \<open>utils.enforce_block_style_resource\<close> is not among the
  source files. Section 4.1 has the merged record persisted as it is, so the function
  is the identity on the record's content (it changes the YAML layout only).
\<close>

definition enforce_block_style_resource :: "resource \<Rightarrow> resource" where
  "enforce_block_style_resource r = r"

text \<open>
  Lines 63 to 73. The list \<open>resource["versions"]\<close> holds the very object
  \<open>new_version\<close>, so deleting its \<open>owners\<close> at line 65 shows in the list too;
  \<open>strip_owners\<close> is that deletion, and \<open>update_resource\<close> below inserts the
  stripped record (the sort key \<open>created\<close> is not touched by it).
\<close>

definition strip_owners :: "version \<Rightarrow> version" where
  "strip_owners new_version =
     (if owners new_version \<noteq> None then new_version\<lparr>owners := None\<rparr> else new_version)"

definition hoist_owners :: "version \<Rightarrow> resource \<Rightarrow> resource" where
  "hoist_owners new_version r =
     (if owners new_version \<noteq> None then r\<lparr>r_owners := owners new_version\<rparr> else r)"

definition drop_falsy_doi :: "resource \<Rightarrow> resource" where
  "drop_falsy_doi r =
     (if r_doi r \<noteq> None \<and> (r_doi r = Some None \<or> r_doi r = Some (Some []))
      then r\<lparr>r_doi := None\<rparr> else r)"

definition write_resource ::
  "resource \<Rightarrow> version \<Rightarrow> string \<Rightarrow> store \<Rightarrow> error + (outcome \<times> version \<times> store)" where
  "write_resource r new_version resource_output_path fs =
     (let r' = drop_falsy_doi (hoist_owners new_version r)
      in Inr (Merged r', strip_owners new_version,
              fs(resource_output_path \<mapsto> Res (enforce_block_style_resource r'))))"

text \<open>
  \<open>update_resource\<close> returns the outcome, the caller's \<open>new_version\<close> as the call
  leaves it, and the files. An exception is \<open>Inl\<close>; nothing is written before any
  \<open>raise\<close> or \<open>assert\<close>, so the files are then as they were.
\<close>

definition source_path :: "string \<Rightarrow> string \<Rightarrow> store \<Rightarrow> string" where
  "source_path resource_path resource_output_path fs =
     (if fs resource_output_path \<noteq> None then resource_output_path else resource_path)"

definition update_resource ::
  "string \<Rightarrow> string \<Rightarrow> yaml \<Rightarrow> string option \<Rightarrow> string \<Rightarrow> version \<Rightarrow> string \<Rightarrow> store
     \<Rightarrow> error + (outcome \<times> version \<times> store)" where
  "update_resource resource_path resource_id resource_type resource_doi vid new_version
       resource_output_path fs =
     (let resource_path = source_path resource_path resource_output_path fs
      in case fs resource_path of
           Some NotADict \<Rightarrow> Inl AssertionError
         | Some (Res resource) \<Rightarrow>
             if r_status resource = ''blocked'' then Inr (Blocked, new_version, fs)
             else if r_status resource = ''accepted'' \<or> r_status resource = ''pending'' then
               if r_versions resource = [] then Inl AssertionError
               else if is_known vid new_version (r_versions resource) then
                 Inr (OldHit, new_version, fs)
               else
                 write_resource
                   (resource\<lparr>r_versions :=
                        sort_reverse created (strip_owners new_version # r_versions resource),
                      r_type := Some resource_type\<rparr>)
                   new_version resource_output_path fs
             else Inl (ValueError (r_status resource))
         | None \<Rightarrow>
             write_resource
               \<lparr>r_status = ''accepted'', r_versions = [strip_owners new_version],
                r_id = Some resource_id, r_doi = Some resource_doi,
                r_type = Some resource_type, r_owners = None\<rparr>
               new_version resource_output_path fs)"

subsection \<open>What the merge claims speak about\<close>

text \<open>The deduplication key of a version: \<open>version_id\<close> together with \<open>rdf_source\<close>.\<close>

definition version_key :: "version \<Rightarrow> string \<times> string option" where
  "version_key v = (version_id v, rdf_source v)"

text \<open>
  The version list a call of \<open>update_resource\<close> would load: that of the record at
  \<open>source_path\<close>; empty when there is no record there.
\<close>

definition current_versions :: "string \<Rightarrow> string \<Rightarrow> store \<Rightarrow> version list" where
  "current_versions resource_path resource_output_path fs =
     (case fs (source_path resource_path resource_output_path fs) of
        Some (Res r) \<Rightarrow> r_versions r
      | _ \<Rightarrow> [])"

text \<open>Sorted by \<open>created\<close>, descending.\<close>

definition newest_first :: "version list \<Rightarrow> bool" where
  "newest_first vs = sorted_wrt (\<lambda>a b. created b \<le> created a) vs"

text \<open>
  A sequence of merges into one resource, each passing the new version's own
  \<open>version_id\<close> as the scanner does (lines 136 to 156). The result is the number of
  calls that inserted a version (those returning the resource) and the files after the
  last call. An exception ends the run; the files are then as the last completed call
  left them.
\<close>

fun update_all ::
  "string \<Rightarrow> string \<Rightarrow> string option \<Rightarrow> string \<Rightarrow> (yaml \<times> version) list \<Rightarrow> store
     \<Rightarrow> nat \<times> store" where
  "update_all resource_path resource_id resource_doi resource_output_path [] fs = (0, fs)"
| "update_all resource_path resource_id resource_doi resource_output_path
       ((resource_type, new_version) # calls) fs =
     (case update_resource resource_path resource_id resource_type resource_doi
             (version_id new_version) new_version resource_output_path fs of
        Inl e \<Rightarrow> (0, fs)
      | Inr (out, nv, fs') \<Rightarrow>
          (case update_all resource_path resource_id resource_doi resource_output_path calls fs' of
             (n, fs'') \<Rightarrow> ((case out of Merged r \<Rightarrow> Suc n | _ \<Rightarrow> n), fs'')))"

subsection \<open>Example data\<close>

definition example_version :: "string \<Rightarrow> string \<Rightarrow> string \<Rightarrow> version" where
  "example_version vid src cr =
     \<lparr>version_id = vid, v_doi = ''10.5281/zenodo.1'', owners = Some (YList [YInt 7]),
      created = cr, v_status = ''accepted'', rdf_source = Some src, v_name = YStr ''n'',
      version_name = ''version 1''\<rparr>"

definition example_resource :: "string \<Rightarrow> version list \<Rightarrow> resource" where
  "example_resource st vs =
     \<lparr>r_status = st, r_versions = vs, r_id = Some ''10.5281/zenodo.0'',
      r_doi = Some (Some ''10.5281/zenodo.0''), r_type = Some (YStr ''model''),
      r_owners = None\<rparr>"

definition example_merged :: resource where
  "example_merged =
     \<lparr>r_status = ''pending'',
      r_versions = [(example_version ''2'' ''u2'' ''2024-02-01'')\<lparr>owners := None\<rparr>,
                    example_version ''1'' ''u1'' ''2024-01-01''],
      r_id = Some ''10.5281/zenodo.0'', r_doi = Some (Some ''10.5281/zenodo.0''),
      r_type = Some (YStr ''model''), r_owners = Some (YList [YInt 7])\<rparr>"

definition example_store :: store where
  "example_store =
     [''collection/r/resource.yaml'' \<mapsto>
        Res (example_resource ''pending'' [example_version ''1'' ''u1'' ''2024-01-01''])]"

definition example_unsorted_store :: store where
  "example_unsorted_store =
     [''collection/r/resource.yaml'' \<mapsto>
        Res (example_resource ''accepted''
               [example_version ''1'' ''u1'' ''2024-01-01'',
                example_version ''4'' ''u4'' ''2024-04-01''])]"

definition example_calls :: "(yaml \<times> version) list" where
  "example_calls =
     [(YStr ''model'', example_version ''3'' ''u3'' ''2024-03-01''),
      (YStr ''model'', example_version ''1'' ''u1'' ''2024-01-01''),
      (YStr ''dataset'', example_version ''2'' ''u2'' ''2024-02-01'')]"

subsection \<open>Selecting the resources to update: \<open>main\<close>, lines 172 to 191\<close>

text \<open>
  \<open>updated_resources\<close> is a dict from resource id to the list of its new versions;
  its items are an association list in insertion order.
\<close>

type_synonym updates = "(string \<times> version list) list"

text \<open>\<open>min(xs)\<close>; it raises \<open>ValueError\<close> on an empty list.\<close>

definition py_min :: "'a::linorder list \<Rightarrow> error + 'a" where
  "py_min xs =
     (case xs of
        [] \<Rightarrow> Inl (ValueError ''min() arg is an empty sequence'')
      | x # xs' \<Rightarrow> Inr (fold min xs' x))"

text \<open>The sort key of line 173: \<open>(min([vv["created"] for vv in kv[1]]), kv[0])\<close>.\<close>

definition oldest_key :: "string \<times> version list \<Rightarrow> error + (string \<times> string)" where
  "oldest_key kv =
     (case py_min (map created (snd kv)) of Inl e \<Rightarrow> Inl e | Inr c \<Rightarrow> Inr (c, fst kv))"

text \<open>
  \<open>sorted(items, key=...)\<close>: the key of every item is computed first (an exception
  there ends the call), then the items are sorted by their keys, stably.
\<close>

fun keys_of :: "('a \<Rightarrow> error + 'k) \<Rightarrow> 'a list \<Rightarrow> error + 'k list" where
  "keys_of key [] = Inr []"
| "keys_of key (x # xs) =
     (case key x of
        Inl e \<Rightarrow> Inl e
      | Inr k \<Rightarrow> (case keys_of key xs of Inl e \<Rightarrow> Inl e | Inr ks \<Rightarrow> Inr (k # ks)))"

definition py_sorted :: "('a \<Rightarrow> error + 'k::linorder) \<Rightarrow> 'a list \<Rightarrow> error + 'a list" where
  "py_sorted key xs =
     (case keys_of key xs of
        Inl e \<Rightarrow> Inl e
      | Inr ks \<Rightarrow> Inr (map snd (sort_key fst (zip ks xs))))"

text \<open>
  The slice \<open>xs[:n]\<close> for a Python int \<open>n\<close>: a negative \<open>n\<close> counts from the end.
\<close>

definition py_slice_to :: "int \<Rightarrow> 'a list \<Rightarrow> 'a list" where
  "py_slice_to n xs =
     (if n < 0 then take (length xs - nat (- n)) xs else take (nat n) xs)"

definition startswith :: "string \<Rightarrow> string \<Rightarrow> bool" where
  "startswith s p = (take (length p) s = p)"

text \<open>The branch name of line 188, \<open>f"origin/auto-update-{k}"\<close>.\<close>

definition marker :: "string \<Rightarrow> string" where
  "marker k = ''origin/auto-update-'' @ k"

text \<open>
  Lines 172 to 189. \<open>branches\<close> is the output of \<open>git branch -r\<close>, split at white
  space. The result is the items of the last \<open>limited_updated_resources\<close>, in order.
\<close>

definition select_updates :: "int \<Rightarrow> string list \<Rightarrow> updates \<Rightarrow> error + updates" where
  "select_updates max_resource_count branches updated_resources =
     (case py_sorted oldest_key updated_resources of
        Inl e \<Rightarrow> Inl e
      | Inr oldest_updated_resources \<Rightarrow>
          (let limited_updated_resources = py_slice_to max_resource_count oldest_updated_resources;
               remote_branches = filter (\<lambda>rb. startswith rb ''origin/auto-update-'') branches
           in Inr (filter (\<lambda>(k, v). marker k \<notin> set remote_branches)
                     limited_updated_resources)))"

text \<open>
  The selection in the words of the specification (section 4.3): sort ascending by
  (minimum \<open>created\<close>, resource id), take the first \<open>n\<close>, then remove the resources
  that have a marker. The marker of a resource is its remote auto-update branch, and
  the supplied markers are the remote branches.
\<close>

definition min_created :: "version list \<Rightarrow> string" where
  "min_created vs = Min (set (map created vs))"

definition selector_spec :: "nat \<Rightarrow> string set \<Rightarrow> updates \<Rightarrow> updates" where
  "selector_spec n markers updated_resources =
     filter (\<lambda>(k, v). marker k \<notin> markers)
       (take n (sort_key (\<lambda>(k, v). (min_created v, k)) updated_resources))"

text \<open>The resources the cap leaves out: those after the first \<open>n\<close> in the sorted order.\<close>

definition excluded_by_cap :: "nat \<Rightarrow> updates \<Rightarrow> updates" where
  "excluded_by_cap n updated_resources =
     drop n (sort_key (\<lambda>(k, v). (min_created v, k)) updated_resources)"

definition example_updates :: updates where
  "example_updates =
     [(''c'', [example_version ''5'' ''u5'' ''2024-03-01'']),
      (''b'', [example_version ''3'' ''u3'' ''2024-02-01'', example_version ''4'' ''u4'' ''2024-01-15'']),
      (''a'', [example_version ''2'' ''u2'' ''2024-03-01'']),
      (''d'', [example_version ''1'' ''u1'' ''2024-01-01''])]"

subsection \<open>Reading one archive hit: \<open>update_from_zenodo\<close>, lines 111 to 147\<close>

text \<open>
  A hit of the archive, with the keys the loop reads. \<open>h_created\<close> is
  \<open>str(created)\<close>, the time stamp of line 113 as text.
\<close>

record file_hit =
  file_key :: string
  links_self :: string

record hit =
  conceptdoi :: string
  h_doi :: string
  h_created :: string
  h_id :: int
  h_owners :: yaml
  h_files :: "file_hit list"
  version_index :: int

text \<open>
  What \<open>requests.get(rdf_source)\<close> followed by \<open>yaml.load(r.text)\<close> gives for a URL:
  the request raises, or it returns a response with a status code and a body, which
  the parser refuses or loads as a document.
\<close>

datatype parsed = ParseFailed | Loaded yaml

datatype fetched = RequestFailed | Response nat parsed

datatype diagnostic =
    MultipleRdfSources
  | FailedToObtainVersionName error

text \<open>The variables \<open>rdf\<close>, \<open>name\<close> and \<open>resource_type\<close> of the loop body.\<close>

record rdf_vars =
  var_rdf :: yaml
  var_name :: yaml
  var_resource_type :: yaml

text \<open>
  The body of the \<open>try\<close> (lines 129 to 132): the variables as the body leaves them,
  and the exception that ended it, if any. The status code of the response is not
  looked at (line 101 tests it for the page request, line 129 does not), so the body
  of an error answer is parsed like a descriptor. \<open>rdf.get\<close> raises
  \<open>AttributeError\<close> when the loaded document is not a mapping; \<open>rdf\<close> is assigned
  by then.
\<close>

definition try_fetch ::
  "(string \<Rightarrow> fetched) \<Rightarrow> string \<Rightarrow> string \<Rightarrow> rdf_vars \<Rightarrow> rdf_vars \<times> error option" where
  "try_fetch fetch url doi vars =
     (case fetch url of
        RequestFailed \<Rightarrow> (vars, Some RequestException)
      | Response status_code text \<Rightarrow>
          (case text of
             ParseFailed \<Rightarrow> (vars, Some YAMLError)
           | Loaded y \<Rightarrow>
               (case y of
                  YDict d \<Rightarrow>
                    (vars\<lparr>var_rdf := y,
                          var_name := dict_get_default d ''name'' (YStr doi),
                          var_resource_type :=
                            (case dict_get d ''type'' of Some t \<Rightarrow> t | None \<Rightarrow> YNull)\<rparr>,
                     None)
                | _ \<Rightarrow> (vars\<lparr>var_rdf := y\<rparr>, Some AttributeError))))"

text \<open>
  Lines 118 to 134: the variables, \<open>rdf_source\<close> (the first of the sorted URLs, or
  \<open>"unknown"\<close>), and what was printed. The handler of line 133 catches every
  exception of the body.
\<close>

definition rdf_urls :: "hit \<Rightarrow> string list" where
  "rdf_urls h = map links_self (filter (\<lambda>file_hit. file_key file_hit = ''rdf.yaml'') (h_files h))"

definition describe_hit ::
  "(string \<Rightarrow> fetched) \<Rightarrow> hit \<Rightarrow> rdf_vars \<times> string \<times> diagnostic list" where
  "describe_hit fetch h =
     (let doi = h_doi h;
          vars = \<lparr>var_rdf = YNull, var_name = YStr doi, var_resource_type = YStr ''unknown''\<rparr>
      in case sort (rdf_urls h) of
           [] \<Rightarrow> (vars, ''unknown'', [])
         | first_url # _ \<Rightarrow>
             (let multiple = (if length (rdf_urls h) > 1 then [MultipleRdfSources] else [])
              in case try_fetch fetch first_url doi vars of
                   (vars', Some e) \<Rightarrow> (vars', first_url, multiple @ [FailedToObtainVersionName e])
                 | (vars', None) \<Rightarrow> (vars', first_url, multiple)))"

text \<open>\<open>str(n)\<close> for an int.\<close>

function str_nat :: "nat \<Rightarrow> string" where
  "str_nat n =
     (if n < 10 then [''0123456789'' ! n]
      else str_nat (n div 10) @ [''0123456789'' ! (n mod 10)])"
  by pat_completeness auto
termination
  by (relation "measure id") auto

declare str_nat.simps [simp del]

definition str_int :: "int \<Rightarrow> string" where
  "str_int i = (if i < 0 then ''-'' @ str_nat (nat (- i)) else str_nat (nat i))"

text \<open>Lines 117 and 136 to 147: the record of the new version.\<close>

definition new_version_of :: "hit \<Rightarrow> rdf_vars \<Rightarrow> string \<Rightarrow> version" where
  "new_version_of h vars url =
     \<lparr>version_id = [CHR 0x27] @ str_int (h_id h) @ [CHR 0x27],
      v_doi = h_doi h,
      owners = Some (h_owners h),
      created = h_created h,
      v_status = ''accepted'',
      rdf_source = Some url,
      v_name = var_name vars,
      version_name = ''version '' @ str_int (version_index h + 1)\<rparr>"

definition example_hit :: hit where
  "example_hit =
     \<lparr>conceptdoi = ''10.5281/zenodo.100'', h_doi = ''10.5281/zenodo.101'',
      h_created = ''2024-01-01 10:00:00'', h_id = 101, h_owners = YList [YInt 7],
      h_files =
        [\<lparr>file_key = ''rdf.yaml'', links_self = ''https://zenodo.org/b/rdf.yaml''\<rparr>,
         \<lparr>file_key = ''weights.pt'', links_self = ''https://zenodo.org/a/weights.pt''\<rparr>,
         \<lparr>file_key = ''rdf.yaml'', links_self = ''https://zenodo.org/a/rdf.yaml''\<rparr>],
      version_index = 0\<rparr>"

definition example_fetch :: "string \<Rightarrow> fetched" where
  "example_fetch url =
     (if url = ''https://zenodo.org/a/rdf.yaml'' then Response 200 (Loaded (YStr ''not a mapping''))
      else Response 200 (Loaded (YDict [(''name'', YStr ''B''), (''type'', YStr ''model'')])))"

text \<open>An archive that answers every request with status 429 and a JSON error body.\<close>

definition example_error_fetch :: "string \<Rightarrow> fetched" where
  "example_error_fetch url =
     Response 429
       (Loaded (YDict [(''status'', YInt 429), (''message'', YStr ''Too many requests'')]))"

text \<open>
  The \<open>try\<close> body raises for a URL when the request raises, the parser raises, or
  what is loaded is not a mapping (lines 131 and 132 then raise).
\<close>

definition fetch_raises :: "(string \<Rightarrow> fetched) \<Rightarrow> string \<Rightarrow> bool" where
  "fetch_raises fetch url =
     (case fetch url of Response status_code (Loaded (YDict d)) \<Rightarrow> False | _ \<Rightarrow> True)"

text \<open>
  The fetch or the parse of a URL fails (specification, sections 4.2 and 5) when the
  \<open>try\<close> body raises or the response is not a success, that is, its status code is
  not 200.
\<close>

definition fetch_fails :: "(string \<Rightarrow> fetched) \<Rightarrow> string \<Rightarrow> bool" where
  "fetch_fails fetch url =
     (case fetch url of
        Response status_code (Loaded (YDict d)) \<Rightarrow> status_code \<noteq> 200
      | _ \<Rightarrow> True)"

section \<open>Aggregation: \<open>scripts/generate_collection_rdf.py\<close>\<close>

subsection \<open>Resources, work trees and the state of \<open>main\<close>\<close>

text \<open>
  A \<open>resource.yaml\<close> as \<open>main\<close> reads it: \<open>status\<close>, \<open>resource_id\<close> and the
  versions, of which \<open>status\<close> and \<open>version_id\<close> are read.
\<close>

record known_resource =
  k_status :: string
  resource_id :: string
  k_versions :: "version list"

text \<open>
  The directory \<open>resources/<version_id>\<close> of a work tree: the content of its
  \<open>rdf.yaml\<close>, if that file is there, and its \<open>validation_summary_*.yaml\<close> files.
  A summary file is given by the name line 93 derives from its file name, and its
  content.
\<close>

record version_dir =
  rdf_yaml :: "yaml option"
  summary_files :: "(string \<times> yaml) list"

text \<open>
  The three places a version directory can be in: \<open>dist/gh-pages\<close>,
  \<open>dist/gh-pages-previews/<branch>\<close> and \<open>dist/gh-pages-update\<close>. A tree maps a
  place and a version id to the directory there, if there is one.
\<close>

datatype root = GhPages | GhPagesPreviews string | GhPagesUpdate

type_synonym tree = "root \<times> string \<Rightarrow> version_dir option"

text \<open>\<open>v_path.exists()\<close> for \<open>v_path = <root>/resources/<version_id>/rdf.yaml\<close>.\<close>

definition rdf_exists :: "tree \<Rightarrow> root \<times> string \<Rightarrow> bool" where
  "rdf_exists t v_path = (case t v_path of Some d \<Rightarrow> rdf_yaml d \<noteq> None | None \<Rightarrow> False)"

text \<open>What \<open>main\<close> prints about the versions and resources it leaves out.\<close>

datatype notice =
    IgnoringMissing "root \<times> string"
  | IgnoringNonDict "root \<times> string"
  | NoAcceptedVersions string
  | IgnoringType string yaml

text \<open>
  \<open>latest_version\<close>: the mapping of the first version found, with the keys of lines
  100, 104 and 105 set, and the list that \<open>latest_version["previous_versions"]\<close>
  holds, which line 107 appends to.
\<close>

record latest =
  l_doc :: "(string \<times> yaml) list"
  l_previous :: "yaml list"

definition entry_of :: "latest \<Rightarrow> yaml" where
  "entry_of l = YDict (dict_set (l_doc l) ''previous_versions'' (YList (l_previous l)))"

text \<open>The variables of the loop over the versions of one resource.\<close>

record collecting =
  c_tree :: tree
  c_processed :: "string list"
  c_latest :: "latest option"
  c_notes :: "notice list"

subsection \<open>Resolving and collecting the versions of a resource: lines 60 to 107\<close>

text \<open>
  Lines 65 to 79: the path \<open>v_path\<close> a version is read from. With a preview branch
  the version is looked up in the preview only; if it is there, the branch is recorded,
  the directory is created under \<open>gh-pages-update\<close> (\<open>mkdir\<close> without
  \<open>exist_ok\<close> raises if it is there already) and the files are moved into it, which
  leaves the preview's directory empty.
\<close>

definition resolve ::
  "bool \<Rightarrow> string \<Rightarrow> string \<Rightarrow> collecting \<Rightarrow> error + ((root \<times> string) \<times> collecting)" where
  "resolve from_preview preview_branch vid c =
     (if from_preview then
        (let v_path = (GhPagesPreviews preview_branch, vid) in
         if rdf_exists (c_tree c) v_path then
           if c_tree c (GhPagesUpdate, vid) \<noteq> None then Inl FileExistsError
           else
             Inr ((GhPagesUpdate, vid),
                  c\<lparr>c_processed := c_processed c @ [preview_branch],
                    c_tree := (c_tree c)
                      ((GhPagesUpdate, vid) := c_tree c v_path,
                       v_path \<mapsto> \<lparr>rdf_yaml = None, summary_files = []\<rparr>)\<rparr>)
         else Inr (v_path, c))
      else Inr ((GhPages, vid), c))"

text \<open>Lines 91 to 98: the validation summaries of a version directory.\<close>

definition summary_of :: "yaml \<Rightarrow> yaml" where
  "summary_of val_sum =
     YDict (filter (\<lambda>(k, v). k \<noteq> ''source_name'')
              (case val_sum of YDict kvs \<Rightarrow> kvs | _ \<Rightarrow> [(''output'', val_sum)]))"

definition val_summaries :: "version_dir \<Rightarrow> yaml" where
  "val_summaries d =
     YDict (fold (\<lambda>(name, val_sum) acc. dict_set acc name (summary_of val_sum))
              (summary_files d) [])"

text \<open>Lines 100 to 107, for a version whose \<open>rdf.yaml\<close> holds the mapping \<open>doc\<close>.\<close>

definition add_version ::
  "string \<Rightarrow> version_dir \<Rightarrow> (string \<times> yaml) list \<Rightarrow> latest option \<Rightarrow> latest" where
  "add_version rid d doc latest_version =
     (let this_version = dict_set doc ''validation_summaries'' (val_summaries d)
      in case latest_version of
           None \<Rightarrow>
             \<lparr>l_doc = dict_set (dict_set this_version ''resource_id'' (YStr rid))
                        ''previous_versions'' (YList []),
              l_previous = []\<rparr>
         | Some l \<Rightarrow> l\<lparr>l_previous := l_previous l @ [YDict this_version]\<rparr>)"

text \<open>The loop of lines 61 to 107 over \<open>r["versions"]\<close>.\<close>

fun collect_versions ::
  "bool \<Rightarrow> string \<Rightarrow> string \<Rightarrow> version list \<Rightarrow> collecting \<Rightarrow> error + collecting" where
  "collect_versions from_preview preview_branch rid [] c = Inr c"
| "collect_versions from_preview preview_branch rid (v # vs) c =
     (if v_status v \<noteq> ''accepted'' then collect_versions from_preview preview_branch rid vs c
      else
        case resolve from_preview preview_branch (version_id v) c of
          Inl e \<Rightarrow> Inl e
        | Inr (v_path, c') \<Rightarrow>
            (case c_tree c' v_path of
               None \<Rightarrow>
                 collect_versions from_preview preview_branch rid vs
                   (c'\<lparr>c_notes := c_notes c' @ [IgnoringMissing v_path]\<rparr>)
             | Some d \<Rightarrow>
                 (case rdf_yaml d of
                    None \<Rightarrow>
                      collect_versions from_preview preview_branch rid vs
                        (c'\<lparr>c_notes := c_notes c' @ [IgnoringMissing v_path]\<rparr>)
                  | Some (YDict doc) \<Rightarrow>
                      collect_versions from_preview preview_branch rid vs
                        (c'\<lparr>c_latest := Some (add_version rid d doc (c_latest c'))\<rparr>)
                  | Some _ \<Rightarrow>
                      collect_versions from_preview preview_branch rid vs
                        (c'\<lparr>c_notes := c_notes c' @ [IgnoringNonDict v_path]\<rparr>))))"

subsection \<open>Filing the latest version under its type: lines 109 to 122\<close>

text \<open>
  The state of the loop over the resources. \<open>attachments\<close> is the mapping under
  \<open>rdf["attachments"]\<close>, which the loop changes in place; its keys, and those of the
  two counters, are the values of \<open>type\<close>.
\<close>

record building =
  b_tree :: tree
  processed_gh_pages_previews :: "string list"
  attachments :: "(yaml \<times> yaml) list"
  n_accepted :: "(yaml \<times> int) list"
  n_accepted_versions :: "(yaml \<times> int) list"
  b_notes :: "notice list"

text \<open>A list or a mapping cannot be the key of a dict: \<open>TypeError\<close>.\<close>

fun unhashable :: "yaml \<Rightarrow> bool" where
  "unhashable (YList xs) = True"
| "unhashable (YDict kvs) = True"
| "unhashable v = False"

fun is_list :: "yaml \<Rightarrow> bool" where
  "is_list (YList xs) = True"
| "is_list v = False"

text \<open>Line 112: \<open>latest_version.get("type", "unknown")\<close>.\<close>

definition type_of_latest :: "latest \<Rightarrow> yaml" where
  "type_of_latest l = dict_get_default (l_doc l) ''type'' (YStr ''unknown'')"

definition file_latest :: "string \<Rightarrow> latest option \<Rightarrow> building \<Rightarrow> error + building" where
  "file_latest r_path latest_version b =
     (case latest_version of
        None \<Rightarrow> Inr (b\<lparr>b_notes := b_notes b @ [NoAcceptedVersions r_path]\<rparr>)
      | Some l \<Rightarrow>
          (let type' = type_of_latest l in
           if unhashable type' then Inl TypeError
           else
             (let type_list = (case dict_get (attachments b) type' of Some x \<Rightarrow> x | None \<Rightarrow> YNull);
                  b' = b\<lparr>attachments := dict_set (attachments b) type' type_list\<rparr>
              in case type_list of
                   YList xs \<Rightarrow>
                     Inr (b'\<lparr>attachments := dict_set (attachments b') type' (YList (xs @ [entry_of l])),
                            n_accepted :=
                              dict_set (n_accepted b') type'
                                (dict_get_default (n_accepted b') type' 0 + 1),
                            n_accepted_versions :=
                              dict_set (n_accepted_versions b') type'
                                (dict_get_default (n_accepted_versions b') type' 0 + 1
                                   + int (length (l_previous l)))\<rparr>)
                 | _ \<Rightarrow> Inr (b'\<lparr>b_notes := b_notes b' @ [IgnoringType r_path type']\<rparr>))))"

subsection \<open>The loop over the known resources: lines 46 to 122\<close>

definition collect_resource ::
  "string list \<Rightarrow> string \<times> known_resource \<Rightarrow> building \<Rightarrow> error + building" where
  "collect_resource remote_branches known b =
     (let r_path = fst known; r = snd known in
      if k_status r \<noteq> ''accepted'' then Inr b
      else
        (let preview_branch = ''gh-pages-auto-update-'' @ resource_id r;
             from_preview = (''origin/'' @ preview_branch \<in> set remote_branches)
         in case collect_versions from_preview preview_branch (resource_id r) (k_versions r)
                   \<lparr>c_tree = b_tree b, c_processed = processed_gh_pages_previews b,
                    c_latest = None, c_notes = b_notes b\<rparr> of
              Inl e \<Rightarrow> Inl e
            | Inr c \<Rightarrow>
                file_latest r_path (c_latest c)
                  (b\<lparr>b_tree := c_tree c, processed_gh_pages_previews := c_processed c,
                     b_notes := c_notes c\<rparr>)))"

fun collect_all ::
  "string list \<Rightarrow> (string \<times> known_resource) list \<Rightarrow> building \<Rightarrow> error + building" where
  "collect_all remote_branches [] b = Inr b"
| "collect_all remote_branches (known # rest) b =
     (case collect_resource remote_branches known b of
        Inl e \<Rightarrow> Inl e
      | Inr b' \<Rightarrow> collect_all remote_branches rest b')"

text \<open>
  Lines 25 to 45 and the loop: \<open>template_attachments\<close> is
  \<open>rdf.get('attachments', {})\<close> of the template, \<open>t\<close> the work trees as checked out.
\<close>

definition collect ::
  "string list \<Rightarrow> (yaml \<times> yaml) list \<Rightarrow> (string \<times> known_resource) list \<Rightarrow> tree
     \<Rightarrow> error + building" where
  "collect remote_branches template_attachments known_resources t =
     collect_all remote_branches known_resources
       \<lparr>b_tree = t, processed_gh_pages_previews = [], attachments = template_attachments,
        n_accepted = [], n_accepted_versions = [], b_notes = []\<rparr>"

subsection \<open>Example data\<close>

definition example_dir :: "string \<Rightarrow> string \<Rightarrow> version_dir" where
  "example_dir nm ty =
     \<lparr>rdf_yaml = Some (YDict [(''name'', YStr nm), (''type'', YStr ty)]),
      summary_files =
        [(''bioimageio'', YDict [(''status'', YStr ''passed''), (''source_name'', YStr ''s'')])]\<rparr>"

text \<open>
  Version \<open>v1\<close> is published under \<open>gh-pages\<close> only, version \<open>v2\<close> is in the
  preview of resource \<open>r\<close> only.
\<close>

definition example_tree :: tree where
  "example_tree =
     [(GhPages, ''v1'') \<mapsto> example_dir ''one'' ''model'',
      (GhPagesPreviews ''gh-pages-auto-update-r'', ''v2'') \<mapsto> example_dir ''two'' ''model'']"

definition example_known :: "string \<times> known_resource" where
  "example_known =
     (''collection/r/resource.yaml'',
      \<lparr>k_status = ''accepted'', resource_id = ''r'',
       k_versions = [example_version ''v2'' ''u2'' ''2024-02-01'',
                     example_version ''v1'' ''u1'' ''2024-01-01'']\<rparr>)"

definition example_collecting :: collecting where
  "example_collecting =
     \<lparr>c_tree = example_tree, c_processed = [], c_latest = None, c_notes = []\<rparr>"

definition example_latest :: latest where
  "example_latest =
     add_version ''r'' (example_dir ''one'' ''model'')
       [(''name'', YStr ''one''), (''type'', YStr ''model'')] None"

definition example_building :: "(yaml \<times> yaml) list \<Rightarrow> building" where
  "example_building template_attachments =
     \<lparr>b_tree = example_tree, processed_gh_pages_previews = [],
      attachments = template_attachments, n_accepted = [], n_accepted_versions = [],
      b_notes = []\<rparr>"

subsection \<open>The JSON projection: \<open>main\<close>, lines 136 to 151\<close>

text \<open>
  \<open>v == float(n)\<close> for a loaded value \<open>v\<close>. Only a number can be equal to a float;
  an int or a bool is equal to the finite float of its value.
\<close>

fun eq_float :: "yaml \<Rightarrow> pyfloat \<Rightarrow> bool" where
  "eq_float (YFloat x) f = float_eq x f"
| "eq_float (YInt i) f = (f = Finite (of_int i))"
| "eq_float (YBool b) f = (f = Finite (if b then 1 else 0))"
| "eq_float _ f = False"

text \<open>\<open>float(n)\<close> for the three strings of line 139.\<close>

definition number_strings :: "string list" where
  "number_strings = [''-inf'', ''inf'', ''nan'']"

definition py_float :: "string \<Rightarrow> pyfloat" where
  "py_float n = (if n = ''-inf'' then NegInf else if n = ''inf'' then PosInf else NaN)"

text \<open>The loop of lines 140 to 142: the first \<open>n\<close> with \<open>v == float(n)\<close>.\<close>

fun first_equal :: "yaml \<Rightarrow> string list \<Rightarrow> string option" where
  "first_equal v [] = None"
| "first_equal v (n # ns) = (if eq_float v (py_float n) then Some n else first_equal v ns)"

text \<open>
  What a \<open>visit\<close> function of \<open>remap\<close> returns: \<open>True\<close> (keep the item as it is)
  or a new item \<open>(key, value)\<close>.
\<close>

datatype 'k visited = Unchanged | Item 'k yaml

text \<open>\<open>convert_for_json(p, k, v)\<close>; the path \<open>p\<close> is not used.\<close>

definition convert_for_json :: "'k \<Rightarrow> yaml \<Rightarrow> 'k visited" where
  "convert_for_json k v =
     (case first_equal v number_strings of
        Some n \<Rightarrow> Item k (YStr n)
      | None \<Rightarrow>
          (case v of
             YTime t \<Rightarrow> Item k (YStr (isoformat t))
           | _ \<Rightarrow> Unchanged))"

definition visit :: "'k \<Rightarrow> yaml \<Rightarrow> 'k \<times> yaml" where
  "visit k v = (case convert_for_json k v of Unchanged \<Rightarrow> (k, v) | Item k' v' \<Rightarrow> (k', v'))"

text \<open>
  \<open>remap(root, visit)\<close> of boltons: the items of every mapping and list are visited,
  those of an inner container before the container itself; the root is not visited.
\<close>

function (sequential) remap :: "yaml \<Rightarrow> yaml" where
  "remap (YDict kvs) = YDict (map (\<lambda>(k, v). visit k (remap v)) kvs)"
| "remap (YList xs) = YList (map (\<lambda>(i, v). snd (visit i (remap v))) (zip [0..<length xs] xs))"
| "remap v = v"
  by pat_completeness auto
termination
proof (relation "measure size")
  show "wf (measure size)" by simp
next
  fix kvs :: "(string \<times> yaml) list" and x k v
  assume "x \<in> set kvs" and "(k, v) = x"
  then have "(k, v) \<in> set kvs" by simp
  then have "size v \<le> size_list (size_prod (\<lambda>_. 0) size) kvs"
    by (intro size_list_estimation' [of "(k, v)"]) simp_all
  then show "(v, YDict kvs) \<in> measure size" by simp
next
  fix xs :: "yaml list" and x :: "nat \<times> yaml" and i v
  assume "x \<in> set (zip [0..<length xs] xs)" and "(i, v) = x"
  then have "v \<in> set xs" by (auto dest: set_zip_rightD)
  then have "size v \<le> size_list size xs"
    by (intro size_list_estimation' [of v]) simp_all
  then show "(v, YList xs) \<in> measure size" by simp
qed

text \<open>
  \<open>json.dump(rdf, f, allow_nan=False)\<close>: the first value in document order that the
  encoder refuses decides the exception; otherwise the document is written.
\<close>

fun json_refused :: "yaml \<Rightarrow> error option"
  and json_refused_list :: "yaml list \<Rightarrow> error option"
  and json_refused_items :: "(string \<times> yaml) list \<Rightarrow> error option" where
  "json_refused (YFloat x) =
     (case x of
        Finite q \<Rightarrow> None
      | _ \<Rightarrow> Some (ValueError ''Out of range float values are not JSON compliant''))"
| "json_refused (YTime t) = Some TypeError"
| "json_refused (YList xs) = json_refused_list xs"
| "json_refused (YDict kvs) = json_refused_items kvs"
| "json_refused YNull = None"
| "json_refused (YBool b) = None"
| "json_refused (YInt i) = None"
| "json_refused (YStr s) = None"
| "json_refused_list [] = None"
| "json_refused_list (x # xs) =
     (case json_refused x of Some e \<Rightarrow> Some e | None \<Rightarrow> json_refused_list xs)"
| "json_refused_items [] = None"
| "json_refused_items ((k, v) # kvs) =
     (case json_refused v of Some e \<Rightarrow> Some e | None \<Rightarrow> json_refused_items kvs)"

definition json_dump :: "yaml \<Rightarrow> error + yaml" where
  "json_dump doc = (case json_refused doc of Some e \<Rightarrow> Inl e | None \<Rightarrow> Inr doc)"

text \<open>Lines 149 to 151.\<close>

definition write_json :: "yaml \<Rightarrow> error + yaml" where
  "write_json doc = json_dump (remap doc)"

section \<open>Properties of the merge\<close>

lemma newest_first_sort_reverse: "newest_first (sort_reverse created vs)"
proof -
  have "sorted (map created (sort_key created (rev vs)))" by simp
  then have "sorted_wrt (\<lambda>a b. b \<le> a) (rev (map created (sort_key created (rev vs))))"
    by (simp add: sorted_wrt_rev)
  then show ?thesis
    by (simp add: newest_first_def sort_reverse_def sorted_wrt_map rev_map)
qed

lemma mset_sort_reverse: "mset (sort_reverse f xs) = mset xs"
  by (simp add: sort_reverse_def)

lemma distinct_keys_sort_reverse:
  "distinct (map g (sort_reverse f xs)) = distinct (map g xs)"
proof -
  have "mset (map g (sort_reverse f xs)) = mset (map g xs)"
    by (simp add: mset_sort_reverse)
  then show ?thesis by (rule mset_eq_imp_distinct_iff)
qed

lemma is_known_iff:
  "is_known (version_id nv) nv vs \<longleftrightarrow> version_key nv \<in> set (map version_key vs)"
proof -
  have "is_known (version_id nv) nv vs \<longleftrightarrow>
        (\<exists>v \<in> set vs. version_key v = version_key nv)"
    by (auto simp: is_known_def list_ex_iff version_key_def)
  also have "\<dots> \<longleftrightarrow> version_key nv \<in> version_key ` set vs"
    by (metis (no_types) image_iff)
  finally show ?thesis by simp
qed

lemma version_key_strip: "version_key (strip_owners nv) = version_key nv"
  by (simp add: strip_owners_def version_key_def)

lemma update_resource_cases:
  assumes "update_resource rp rid rtype rdoi (version_id nv) nv rop fs = Inr (out, nv', fs')"
  shows "(fs' = fs \<and> nv' = nv \<and> (out = OldHit \<or> out = Blocked)) \<or>
         (\<exists>r. out = Merged r \<and> fs' = fs(rop \<mapsto> Res r) \<and> nv' = strip_owners nv \<and>
              r_versions r = sort_reverse created (strip_owners nv # current_versions rp rop fs) \<and>
              version_key nv \<notin> set (map version_key (current_versions rp rop fs)))"
  using assms
  apply (auto simp: update_resource_def write_resource_def Let_def current_versions_def
      enforce_block_style_resource_def hoist_owners_def drop_falsy_doi_def is_known_iff
      sort_reverse_def
      split: option.splits resource_file.splits if_splits)
  done

text \<open>
  Claim C3. A call of \<open>update_resource\<close> that loads a resource whose \<open>status\<close>
  is \<open>blocked\<close> returns \<open>blocked\<close>, whatever the new version, its
  \<open>version_id\<close>, the type and the DOI are: the caller's new version and every file
  are as they were, so nothing is written to the output path.
\<close>

theorem blocked_resource_rejects_merge:
  assumes "fs (source_path rp rop fs) = Some (Res r)" and "r_status r = ''blocked''"
  shows "update_resource rp rid rtype rdoi vid nv rop fs = Inr (Blocked, nv, fs)"
  using assms by (simp add: update_resource_def Let_def)

theorem blocked_resource_rejects_merge_witness:
  "update_resource ''collection/r/resource.yaml'' ''r'' (YStr ''model'') (Some ''r'') ''2''
     (example_version ''2'' ''u2'' ''2024-02-01'') ''dist/r/resource.yaml''
     [''collection/r/resource.yaml'' \<mapsto>
        Res (example_resource ''blocked'' [example_version ''1'' ''u1'' ''2024-01-01''])]
   = Inr (Blocked, example_version ''2'' ''u2'' ''2024-02-01'',
     [''collection/r/resource.yaml'' \<mapsto>
        Res (example_resource ''blocked'' [example_version ''1'' ''u1'' ''2024-01-01''])])"
  using blocked_resource_rejects_merge
    [where r = "example_resource ''blocked'' [example_version ''1'' ''u1'' ''2024-01-01'']"
       and fs = "[''collection/r/resource.yaml'' \<mapsto>
        Res (example_resource ''blocked'' [example_version ''1'' ''u1'' ''2024-01-01''])]"
       and rp = "''collection/r/resource.yaml''" and rop = "''dist/r/resource.yaml''"]
  by (simp add: source_path_def example_resource_def)

lemma old_hit_of_known:
  assumes "fs (source_path rp rop fs) = Some (Res r)"
    and "r_status r = ''accepted'' \<or> r_status r = ''pending''"
    and "version_key nv \<in> set (map version_key (r_versions r))"
  shows "update_resource rp rid rtype rdoi (version_id nv) nv rop fs = Inr (OldHit, nv, fs)"
proof -
  from assms(3) have known: "is_known (version_id nv) nv (r_versions r)"
    by (simp only: is_known_iff)
  from assms(3) have "r_versions r \<noteq> []" by auto
  with assms(1,2) known show ?thesis
    by (auto simp: update_resource_def Let_def)
qed

lemma merged_resource_holds_version:
  assumes "update_resource rp rid rtype rdoi vid nv rop fs = Inr (Merged r, nv', fs')"
  shows "fs' (source_path rp rop fs') = Some (Res r) \<and>
         (r_status r = ''accepted'' \<or> r_status r = ''pending'') \<and>
         strip_owners nv \<in> set (r_versions r)"
  using assms
  by (auto simp: update_resource_def write_resource_def Let_def source_path_def
      enforce_block_style_resource_def hoist_owners_def drop_falsy_doi_def
      sort_reverse_def
      split: option.splits resource_file.splits if_splits)

text \<open>
  Claim C2. If the loaded resource is accepted or pending and its version list holds a
  version with the \<open>version_id\<close> and \<open>rdf_source\<close> of the new one, the call
  returns \<open>old_hit\<close> and changes neither the files nor the new version. Merging is
  idempotent: after a call that merged a version, the same call on the files it left
  returns \<open>old_hit\<close> and leaves them unchanged.
\<close>

theorem known_version_is_old_hit:
  "(fs (source_path rp rop fs) = Some (Res r) \<and>
    (r_status r = ''accepted'' \<or> r_status r = ''pending'') \<and>
    version_key nv \<in> set (map version_key (r_versions r)) \<longrightarrow>
      update_resource rp rid rtype rdoi (version_id nv) nv rop fs = Inr (OldHit, nv, fs)) \<and>
   (update_resource rp rid rtype rdoi (version_id nv) nv rop fs = Inr (Merged r', nv', fs') \<longrightarrow>
      update_resource rp rid rtype rdoi (version_id nv) nv rop fs' = Inr (OldHit, nv, fs'))"
proof (intro conjI impI)
  assume "fs (source_path rp rop fs) = Some (Res r) \<and>
    (r_status r = ''accepted'' \<or> r_status r = ''pending'') \<and>
    version_key nv \<in> set (map version_key (r_versions r))"
  then show "update_resource rp rid rtype rdoi (version_id nv) nv rop fs = Inr (OldHit, nv, fs)"
    by (intro old_hit_of_known) auto
next
  assume "update_resource rp rid rtype rdoi (version_id nv) nv rop fs = Inr (Merged r', nv', fs')"
  from merged_resource_holds_version [OF this]
  have 1: "fs' (source_path rp rop fs') = Some (Res r')"
    and 2: "r_status r' = ''accepted'' \<or> r_status r' = ''pending''"
    and 3: "strip_owners nv \<in> set (r_versions r')" by auto
  from 3 have "version_key (strip_owners nv) \<in> set (map version_key (r_versions r'))"
    by (metis (no_types) image_eqI set_map)
  then have "version_key nv \<in> set (map version_key (r_versions r'))"
    by (simp only: version_key_strip)
  with 1 2 show "update_resource rp rid rtype rdoi (version_id nv) nv rop fs' = Inr (OldHit, nv, fs')"
    by (rule old_hit_of_known)
qed

theorem known_version_is_old_hit_witness:
  "example_store (source_path ''collection/r/resource.yaml'' ''dist/r/resource.yaml'' example_store)
     = Some (Res (example_resource ''pending'' [example_version ''1'' ''u1'' ''2024-01-01''])) \<and>
   update_resource ''collection/r/resource.yaml'' ''r'' (YStr ''model'') (Some ''r'') ''1''
     (example_version ''1'' ''u1'' ''2024-05-05'') ''dist/r/resource.yaml'' example_store
     = Inr (OldHit, example_version ''1'' ''u1'' ''2024-05-05'', example_store) \<and>
   update_resource ''collection/r/resource.yaml'' ''r'' (YStr ''model'') (Some ''r'') ''2''
     (example_version ''2'' ''u2'' ''2024-02-01'') ''dist/r/resource.yaml'' example_store
     = Inr (Merged (example_merged), strip_owners (example_version ''2'' ''u2'' ''2024-02-01''),
            example_store(''dist/r/resource.yaml'' \<mapsto> Res example_merged)) \<and>
   update_resource ''collection/r/resource.yaml'' ''r'' (YStr ''model'') (Some ''r'') ''2''
     (example_version ''2'' ''u2'' ''2024-02-01'') ''dist/r/resource.yaml''
     (example_store(''dist/r/resource.yaml'' \<mapsto> Res example_merged))
     = Inr (OldHit, example_version ''2'' ''u2'' ''2024-02-01'',
            example_store(''dist/r/resource.yaml'' \<mapsto> Res example_merged))"
proof -
  have cur: "example_store
      (source_path ''collection/r/resource.yaml'' ''dist/r/resource.yaml'' example_store)
     = Some (Res (example_resource ''pending'' [example_version ''1'' ''u1'' ''2024-01-01'']))"
    by (simp add: source_path_def example_store_def)
  have st: "r_status (example_resource ''pending'' [example_version ''1'' ''u1'' ''2024-01-01''])
      = ''pending''"
    by (simp add: example_resource_def)
  have key: "version_key (example_version ''1'' ''u1'' ''2024-05-05'')
      \<in> set (map version_key
          (r_versions (example_resource ''pending'' [example_version ''1'' ''u1'' ''2024-01-01''])))"
    by (simp add: example_resource_def example_version_def version_key_def)
  have vid1: "version_id (example_version ''1'' ''u1'' ''2024-05-05'') = ''1''"
    and vid2: "version_id (example_version ''2'' ''u2'' ''2024-02-01'') = ''2''"
    by (simp_all add: example_version_def)
  have merged: "update_resource ''collection/r/resource.yaml'' ''r'' (YStr ''model'') (Some ''r'') ''2''
     (example_version ''2'' ''u2'' ''2024-02-01'') ''dist/r/resource.yaml'' example_store
     = Inr (Merged (example_merged), strip_owners (example_version ''2'' ''u2'' ''2024-02-01''),
            example_store(''dist/r/resource.yaml'' \<mapsto> Res example_merged))"
    by (simp add: example_store_def example_resource_def example_version_def example_merged_def
        update_resource_def write_resource_def Let_def source_path_def is_known_def
        strip_owners_def hoist_owners_def drop_falsy_doi_def enforce_block_style_resource_def
        sort_reverse_def)
  from known_version_is_old_hit
    [of example_store "''collection/r/resource.yaml''" "''dist/r/resource.yaml''"
        "example_resource ''pending'' [example_version ''1'' ''u1'' ''2024-01-01'']"
        "example_version ''1'' ''u1'' ''2024-05-05''" "''r''" "YStr ''model''" "Some ''r''"]
    cur st key vid1
  have first: "update_resource ''collection/r/resource.yaml'' ''r'' (YStr ''model'') (Some ''r'') ''1''
     (example_version ''1'' ''u1'' ''2024-05-05'') ''dist/r/resource.yaml'' example_store
     = Inr (OldHit, example_version ''1'' ''u1'' ''2024-05-05'', example_store)"
    by simp
  from known_version_is_old_hit
    [of example_store "''collection/r/resource.yaml''" "''dist/r/resource.yaml''"
        "example_resource ''pending'' [example_version ''1'' ''u1'' ''2024-01-01'']"
        "example_version ''2'' ''u2'' ''2024-02-01''" "''r''" "YStr ''model''" "Some ''r''"
        example_merged "strip_owners (example_version ''2'' ''u2'' ''2024-02-01'')"
        "example_store(''dist/r/resource.yaml'' \<mapsto> Res example_merged)"]
    merged vid2
  have again: "update_resource ''collection/r/resource.yaml'' ''r'' (YStr ''model'') (Some ''r'') ''2''
     (example_version ''2'' ''u2'' ''2024-02-01'') ''dist/r/resource.yaml''
     (example_store(''dist/r/resource.yaml'' \<mapsto> Res example_merged))
     = Inr (OldHit, example_version ''2'' ''u2'' ''2024-02-01'',
            example_store(''dist/r/resource.yaml'' \<mapsto> Res example_merged))"
    by simp
  from cur first merged again show ?thesis by simp
qed

text \<open>
  Claim C10. When \<open>update_resource\<close> returns a resource (neither \<open>blocked\<close> nor
  \<open>old_hit\<close>, no exception) and the new version has an \<open>owners\<close> key, the
  caller's new version comes back without that key and the resource holds its value as
  \<open>owners\<close>; a new version without \<open>owners\<close> comes back as it was.
\<close>

theorem merge_strips_owners:
  assumes "update_resource rp rid rtype rdoi vid nv rop fs = Inr (Merged r, nv', fs')"
  shows "(owners nv \<noteq> None \<longrightarrow>
            nv' = nv\<lparr>owners := None\<rparr> \<and> owners nv' = None \<and> r_owners r = owners nv) \<and>
         (owners nv = None \<longrightarrow> nv' = nv)"
  using assms
  by (auto simp: update_resource_def write_resource_def Let_def strip_owners_def
      hoist_owners_def drop_falsy_doi_def
      split: option.splits resource_file.splits if_splits)

theorem merge_strips_owners_witness:
  "update_resource ''collection/r/resource.yaml'' ''r'' (YStr ''model'') (Some ''r'') ''2''
     (example_version ''2'' ''u2'' ''2024-02-01'') ''dist/r/resource.yaml'' example_store
     = Inr (Merged example_merged, strip_owners (example_version ''2'' ''u2'' ''2024-02-01''),
            example_store(''dist/r/resource.yaml'' \<mapsto> Res example_merged)) \<and>
   owners (example_version ''2'' ''u2'' ''2024-02-01'') = Some (YList [YInt 7]) \<and>
   owners (strip_owners (example_version ''2'' ''u2'' ''2024-02-01'')) = None \<and>
   r_owners example_merged = Some (YList [YInt 7])"
proof -
  have merged: "update_resource ''collection/r/resource.yaml'' ''r'' (YStr ''model'') (Some ''r'') ''2''
     (example_version ''2'' ''u2'' ''2024-02-01'') ''dist/r/resource.yaml'' example_store
     = Inr (Merged (example_merged), strip_owners (example_version ''2'' ''u2'' ''2024-02-01''),
            example_store(''dist/r/resource.yaml'' \<mapsto> Res example_merged))"
    by (simp add: example_store_def example_resource_def example_version_def example_merged_def
        update_resource_def write_resource_def Let_def source_path_def is_known_def
        strip_owners_def hoist_owners_def drop_falsy_doi_def enforce_block_style_resource_def
        sort_reverse_def)
  have own: "owners (example_version ''2'' ''u2'' ''2024-02-01'') = Some (YList [YInt 7])"
    by (simp add: example_version_def)
  from merge_strips_owners [OF merged] own merged show ?thesis by simp
qed

lemma update_resource_keeps_distinct:
  assumes "update_resource rp rid rtype rdoi (version_id nv) nv rop fs = Inr (out, nv', fs')"
    and "distinct (map version_key (current_versions rp rop fs))"
  shows "distinct (map version_key (current_versions rp rop fs'))"
proof -
  from update_resource_cases [OF assms(1)]
  consider (same) "fs' = fs"
    | (merged) r where "fs' = fs(rop \<mapsto> Res r)"
        "r_versions r = sort_reverse created (strip_owners nv # current_versions rp rop fs)"
        "version_key nv \<notin> set (map version_key (current_versions rp rop fs))"
    by blast
  then show ?thesis
  proof cases
    case same
    with assms(2) show ?thesis by simp
  next
    case (merged r)
    from merged(1) have "current_versions rp rop fs' = r_versions r"
      by (simp add: current_versions_def source_path_def)
    with merged(2,3) assms(2) show ?thesis
      by (simp add: distinct_keys_sort_reverse version_key_strip)
  qed
qed

lemma update_resource_sorts:
  assumes "update_resource rp rid rtype rdoi (version_id nv) nv rop fs = Inr (out, nv', fs')"
  shows "(fs' = fs \<and> (out = OldHit \<or> out = Blocked)) \<or>
         ((\<exists>r. out = Merged r) \<and> newest_first (current_versions rp rop fs'))"
proof -
  from update_resource_cases [OF assms]
  consider (same) "fs' = fs" "out = OldHit \<or> out = Blocked"
    | (merged) r where "out = Merged r" "fs' = fs(rop \<mapsto> Res r)"
        "r_versions r = sort_reverse created (strip_owners nv # current_versions rp rop fs)"
    by blast
  then show ?thesis
  proof cases
    case same
    then show ?thesis by simp
  next
    case (merged r)
    from merged(2) have "current_versions rp rop fs' = r_versions r"
      by (simp add: current_versions_def source_path_def)
    with merged(1,3) show ?thesis
      by (simp add: newest_first_sort_reverse)
  qed
qed

lemma update_all_keeps_distinct:
  "distinct (map version_key (current_versions rp rop fs)) \<Longrightarrow>
   distinct (map version_key
     (current_versions rp rop (snd (update_all rp rid rdoi rop calls fs))))"
proof (induction calls arbitrary: fs)
  case Nil
  then show ?case by simp
next
  case (Cons c calls)
  obtain rtype nv where c: "c = (rtype, nv)" by (cases c)
  show ?case
  proof (cases "update_resource rp rid rtype rdoi (version_id nv) nv rop fs")
    case (Inl e)
    with Cons.prems c show ?thesis by simp
  next
    case (Inr res)
    obtain out nv' fs' where res: "res = (out, nv', fs')" by (cases res)
    have snd_step: "snd (update_all rp rid rdoi rop (c # calls) fs)
        = snd (update_all rp rid rdoi rop calls fs')"
      using Inr res c by (simp split: prod.splits)
    from update_resource_keeps_distinct [OF Inr [unfolded res] Cons.prems]
    have "distinct (map version_key (current_versions rp rop fs'))" .
    from Cons.IH [OF this] snd_step show ?thesis by simp
  qed
qed

lemma update_all_sorts:
  "newest_first (current_versions rp rop fs) \<or> 0 < fst (update_all rp rid rdoi rop calls fs) \<Longrightarrow>
   newest_first (current_versions rp rop (snd (update_all rp rid rdoi rop calls fs)))"
proof (induction calls arbitrary: fs)
  case Nil
  then show ?case by simp
next
  case (Cons c calls)
  obtain rtype nv where c: "c = (rtype, nv)" by (cases c)
  show ?case
  proof (cases "update_resource rp rid rtype rdoi (version_id nv) nv rop fs")
    case (Inl e)
    with Cons.prems c show ?thesis by simp
  next
    case (Inr res)
    obtain out nv' fs' where res: "res = (out, nv', fs')" by (cases res)
    have snd_step: "snd (update_all rp rid rdoi rop (c # calls) fs)
        = snd (update_all rp rid rdoi rop calls fs')"
      using Inr res c by (simp split: prod.splits)
    from update_resource_sorts [OF Inr [unfolded res]]
    show ?thesis
    proof
      assume same: "fs' = fs \<and> (out = OldHit \<or> out = Blocked)"
      then have "fst (update_all rp rid rdoi rop (c # calls) fs)
          = fst (update_all rp rid rdoi rop calls fs')"
        using Inr res c by (auto split: prod.splits)
      with Cons.prems same
      have "newest_first (current_versions rp rop fs') \<or>
            0 < fst (update_all rp rid rdoi rop calls fs')" by simp
      from Cons.IH [OF this] snd_step show ?thesis by simp
    next
      assume "(\<exists>r. out = Merged r) \<and> newest_first (current_versions rp rop fs')"
      then have "newest_first (current_versions rp rop fs') \<or>
            0 < fst (update_all rp rid rdoi rop calls fs')" by simp
      from Cons.IH [OF this] snd_step show ?thesis by simp
    qed
  qed
qed

text \<open>
  Claim C1. Take any sequence of merges into one resource, starting from a resource that
  does not exist yet or from an existing one whose version list has no two entries equal
  in both \<open>version_id\<close> and \<open>rdf_source\<close>. Then the version list after the sequence
  has no two such entries; and it is sorted by \<open>created\<close> descending, provided a
  call of the sequence inserted a version or the list was sorted to begin with.
\<close>

theorem merged_versions_sorted_and_unique:
  assumes "distinct (map version_key (current_versions rp rop fs))"
  shows "distinct (map version_key
           (current_versions rp rop (snd (update_all rp rid rdoi rop calls fs)))) \<and>
         (newest_first (current_versions rp rop fs) \<or>
          0 < fst (update_all rp rid rdoi rop calls fs) \<longrightarrow>
            newest_first
              (current_versions rp rop (snd (update_all rp rid rdoi rop calls fs))))"
  using assms update_all_keeps_distinct update_all_sorts by blast

theorem merged_versions_sorted_and_unique_witness:
  "map version_id
       (current_versions ''collection/r/resource.yaml'' ''dist/r/resource.yaml''
          example_unsorted_store) = [''1'', ''4''] \<and>
   distinct (map version_key
       (current_versions ''collection/r/resource.yaml'' ''dist/r/resource.yaml''
          example_unsorted_store)) \<and>
   \<not> newest_first
       (current_versions ''collection/r/resource.yaml'' ''dist/r/resource.yaml''
          example_unsorted_store) \<and>
   fst (update_all ''collection/r/resource.yaml'' ''r'' (Some ''r'') ''dist/r/resource.yaml''
          example_calls example_unsorted_store) = 2 \<and>
   map version_id
       (current_versions ''collection/r/resource.yaml'' ''dist/r/resource.yaml''
          (snd (update_all ''collection/r/resource.yaml'' ''r'' (Some ''r'')
                  ''dist/r/resource.yaml'' example_calls example_unsorted_store)))
     = [''4'', ''3'', ''2'', ''1''] \<and>
   distinct (map version_key
       (current_versions ''collection/r/resource.yaml'' ''dist/r/resource.yaml''
          (snd (update_all ''collection/r/resource.yaml'' ''r'' (Some ''r'')
                  ''dist/r/resource.yaml'' example_calls example_unsorted_store)))) \<and>
   newest_first
       (current_versions ''collection/r/resource.yaml'' ''dist/r/resource.yaml''
          (snd (update_all ''collection/r/resource.yaml'' ''r'' (Some ''r'')
                  ''dist/r/resource.yaml'' example_calls example_unsorted_store)))"
proof -
  let ?run = "update_all ''collection/r/resource.yaml'' ''r'' (Some ''r'')
      ''dist/r/resource.yaml'' example_calls example_unsorted_store"
  have init: "current_versions ''collection/r/resource.yaml'' ''dist/r/resource.yaml''
        example_unsorted_store
      = [example_version ''1'' ''u1'' ''2024-01-01'', example_version ''4'' ''u4'' ''2024-04-01'']"
    by (simp add: current_versions_def source_path_def example_unsorted_store_def
        example_resource_def)
  have ids0: "map version_id [example_version ''1'' ''u1'' ''2024-01-01'',
        example_version ''4'' ''u4'' ''2024-04-01''] = [''1'', ''4'']"
    and d: "distinct (map version_key [example_version ''1'' ''u1'' ''2024-01-01'',
        example_version ''4'' ''u4'' ''2024-04-01''])"
    and n: "\<not> newest_first [example_version ''1'' ''u1'' ''2024-01-01'',
        example_version ''4'' ''u4'' ''2024-04-01'']"
    by (simp_all add: newest_first_def version_key_def example_version_def)
  have ids: "map version_id
       (current_versions ''collection/r/resource.yaml'' ''dist/r/resource.yaml'' (snd ?run))
      = [''4'', ''3'', ''2'', ''1'']"
    by (simp add: example_calls_def example_unsorted_store_def example_resource_def
        example_version_def update_resource_def write_resource_def Let_def source_path_def
        is_known_def strip_owners_def hoist_owners_def drop_falsy_doi_def
        enforce_block_style_resource_def sort_reverse_def current_versions_def)
  have count: "fst ?run = 2"
    by (simp add: example_calls_def example_unsorted_store_def example_resource_def
        example_version_def update_resource_def write_resource_def Let_def source_path_def
        is_known_def strip_owners_def hoist_owners_def drop_falsy_doi_def
        enforce_block_style_resource_def sort_reverse_def current_versions_def)
  from merged_versions_sorted_and_unique
    [of "''collection/r/resource.yaml''" "''dist/r/resource.yaml''" example_unsorted_store
        "''r''" "Some ''r''" example_calls]
    d count
  have "distinct (map version_key
       (current_versions ''collection/r/resource.yaml'' ''dist/r/resource.yaml'' (snd ?run))) \<and>
     newest_first
       (current_versions ''collection/r/resource.yaml'' ''dist/r/resource.yaml'' (snd ?run))"
    by (simp add: init)
  with ids0 d n ids count show ?thesis by (simp only: init simp_thms)
qed

section \<open>Properties of the update selection\<close>

lemma py_min_eq:
  assumes "xs \<noteq> []"
  shows "py_min xs = Inr (Min (set xs))"
proof (cases xs)
  case Nil
  with assms show ?thesis by simp
next
  case (Cons a list)
  then show ?thesis
    using Min.set_eq_fold [of a list] by (simp add: py_min_def)
qed

lemma oldest_key_eq:
  "snd kv \<noteq> [] \<Longrightarrow> oldest_key kv = Inr (min_created (snd kv), fst kv)"
  by (simp add: oldest_key_def py_min_eq min_created_def)

lemma keys_of_total:
  "(\<And>x. x \<in> set xs \<Longrightarrow> f x = Inr (g x)) \<Longrightarrow> keys_of f xs = Inr (map g xs)"
  by (induction xs) simp_all

lemma insort_key_decorated:
  "insort_key fst (f x, x) (map (\<lambda>y. (f y, y)) ys) = map (\<lambda>y. (f y, y)) (insort_key f x ys)"
  by (induction ys) simp_all

lemma sort_key_decorated:
  "sort_key fst (map (\<lambda>y. (f y, y)) xs) = map (\<lambda>y. (f y, y)) (sort_key f xs)"
  by (induction xs) (simp_all add: insort_key_decorated)

lemma py_sorted_eq:
  assumes "\<And>x. x \<in> set xs \<Longrightarrow> key x = Inr (g x)"
  shows "py_sorted key xs = Inr (sort_key g xs)"
proof -
  have "keys_of key xs = Inr (map g xs)" using assms by (rule keys_of_total)
  moreover have "zip (map g xs) xs = map (\<lambda>y. (g y, y)) xs"
    by (induction xs) simp_all
  ultimately show ?thesis
    by (simp add: py_sorted_def sort_key_decorated comp_def)
qed

lemma marked_iff:
  "marker k \<in> set (filter (\<lambda>rb. startswith rb ''origin/auto-update-'') branches)
   \<longleftrightarrow> marker k \<in> set branches"
  by (auto simp: startswith_def marker_def)

lemma select_updates_eq:
  assumes "\<And>kv. kv \<in> set items \<Longrightarrow> snd kv \<noteq> []" and "0 \<le> n"
  shows "select_updates n branches items = Inr (selector_spec (nat n) (set branches) items)"
proof -
  have "py_sorted oldest_key items = Inr (sort_key (\<lambda>kv. (min_created (snd kv), fst kv)) items)"
    using assms(1) by (intro py_sorted_eq oldest_key_eq)
  then show ?thesis
    using assms(2)
    by (simp add: select_updates_def selector_spec_def py_slice_to_def marked_iff
        case_prod_unfold del: set_filter)
qed

lemma sorted_take_le_drop:
  assumes "sorted (map f xs)" "x \<in> set (take n xs)" "y \<in> set (drop n xs)"
  shows "f x \<le> f y"
proof -
  have "sorted (map f (take n xs) @ map f (drop n xs))"
    using assms(1) by (simp flip: map_append)
  with assms(2,3) show ?thesis
    by (auto simp: sorted_append)
qed

lemma filter_key_singleton:
  assumes "inj_on f (set zs)" and "distinct zs" and "k \<in> set zs"
  shows "filter (\<lambda>x. f k = f x) zs = [k]"
  using assms
proof (induction zs)
  case Nil
  then show ?case by simp
next
  case (Cons z zs)
  show ?case
  proof (cases "k = z")
    case True
    have "filter (\<lambda>x. f z = f x) zs = []"
      using Cons.prems(1,2) by (auto simp: filter_empty_conv inj_on_def)
    with True show ?thesis by simp
  next
    case False
    with Cons.prems have "k \<in> set zs" "f k \<noteq> f z" by (auto simp: inj_on_def)
    moreover from Cons.prems have "inj_on f (set zs)" "distinct zs" by (auto simp: inj_on_def)
    ultimately show ?thesis using Cons.IH by simp
  qed
qed

lemma sort_key_unique:
  assumes "mset ys = mset xs" and "inj_on f (set xs)" and "distinct xs"
  shows "sort_key f ys = sort_key f xs"
proof (rule properties_for_sort_key)
  show "mset (sort_key f xs) = mset ys" using assms(1) by simp
  show "sorted (map f (sort_key f xs))" by simp
  fix k assume k: "k \<in> set (sort_key f xs)"
  have dy: "distinct ys" using assms(1,3) by (metis mset_eq_imp_distinct_iff)
  have sy: "set ys = set xs" using assms(1) by (metis mset_eq_setD)
  have "filter (\<lambda>x. f k = f x) (sort_key f xs) = [k]"
    using assms(2,3) k by (intro filter_key_singleton) simp_all
  moreover have "filter (\<lambda>x. f k = f x) ys = [k]"
    using assms(2) dy k sy by (intro filter_key_singleton) simp_all
  ultimately show "filter (\<lambda>x. f k = f x) (sort_key f xs) = filter (\<lambda>x. f k = f x) ys"
    by simp
qed

lemma inj_on_updates_key:
  assumes "distinct (map fst items)"
  shows "inj_on (\<lambda>(k, v). (min_created v, k)) (set items)"
proof (rule inj_onI)
  fix x y assume "x \<in> set items" "y \<in> set items"
    and "(case x of (k, v) \<Rightarrow> (min_created v, k)) = (case y of (k, v) \<Rightarrow> (min_created v, k))"
  then have "fst x = fst y" by (auto simp: case_prod_unfold)
  with \<open>x \<in> set items\<close> \<open>y \<in> set items\<close> assms show "x = y"
    by (metis distinct_map inj_onD)
qed

text \<open>
  Claim C6. For a dict of non-empty lists of new versions and a count
  \<open>max_resource_count\<close> that is not negative, the selection of \<open>main\<close> is the one
  the specification describes: sort ascending by (minimum \<open>created\<close>, resource id),
  take the first \<open>max_resource_count\<close>, remove the resources whose auto-update branch
  is among the remote branches. So at most \<open>max_resource_count\<close> resources are
  returned, the minimum \<open>created\<close> of every returned resource is at most that of every
  resource the cap left out, and the result is the same for every permutation of the
  dict's items.
\<close>

theorem update_selector_oldest_first:
  assumes "distinct (map fst items)"
    and "list_all (\<lambda>kv. snd kv \<noteq> []) items"
    and "0 \<le> n"
  shows "select_updates n branches items = Inr (selector_spec (nat n) (set branches) items) \<and>
         int (length (selector_spec (nat n) (set branches) items)) \<le> n \<and>
         (\<forall>(k, v) \<in> set (selector_spec (nat n) (set branches) items).
            \<forall>(k', v') \<in> set (excluded_by_cap (nat n) items). min_created v \<le> min_created v') \<and>
         (\<forall>items'. mset items' = mset items \<longrightarrow>
            select_updates n branches items' = select_updates n branches items)"
proof (intro conjI allI impI)
  have nonempty: "\<And>kv. kv \<in> set items \<Longrightarrow> snd kv \<noteq> []"
    using assms(2) by (simp add: list_all_iff)
  show eq: "select_updates n branches items = Inr (selector_spec (nat n) (set branches) items)"
    using nonempty assms(3) by (rule select_updates_eq)
  have "length (selector_spec (nat n) (set branches) items) \<le> nat n"
    unfolding selector_spec_def
    by (rule order_trans [OF length_filter_le]) simp
  with assms(3) show "int (length (selector_spec (nat n) (set branches) items)) \<le> n"
    by simp
  show "\<forall>(k, v) \<in> set (selector_spec (nat n) (set branches) items).
            \<forall>(k', v') \<in> set (excluded_by_cap (nat n) items). min_created v \<le> min_created v'"
  proof (clarify)
    fix k v k' v'
    assume "(k, v) \<in> set (selector_spec (nat n) (set branches) items)"
      and ex: "(k', v') \<in> set (excluded_by_cap (nat n) items)"
    then have "(k, v) \<in> set (take (nat n) (sort_key (\<lambda>(k, v). (min_created v, k)) items))"
      by (simp add: selector_spec_def)
    moreover have "sorted (map (\<lambda>(k, v). (min_created v, k))
        (sort_key (\<lambda>(k, v). (min_created v, k)) items))"
      by (rule sorted_sort_key)
    ultimately have "(\<lambda>(k, v). (min_created v, k)) (k, v) \<le> (\<lambda>(k, v). (min_created v, k)) (k', v')"
      using ex unfolding excluded_by_cap_def by (intro sorted_take_le_drop)
    then show "min_created v \<le> min_created v'"
      by (auto simp: less_eq_prod_def)
  qed
  fix items' :: updates
  assume m: "mset items' = mset items"
  then have s: "set items' = set items" by (metis mset_eq_setD)
  have d: "distinct items" using assms(1) by (rule distinct_map [THEN iffD1, THEN conjunct1])
  have "select_updates n branches items' = Inr (selector_spec (nat n) (set branches) items')"
    using nonempty assms(3) by (intro select_updates_eq) (simp_all add: s)
  moreover have "sort_key (\<lambda>(k, v). (min_created v, k)) items'
      = sort_key (\<lambda>(k, v). (min_created v, k)) items"
    using m inj_on_updates_key [OF assms(1)] d by (rule sort_key_unique)
  ultimately show "select_updates n branches items' = select_updates n branches items"
    by (simp add: eq selector_spec_def)
qed

theorem update_selector_oldest_first_witness:
  "distinct (map fst example_updates) \<and>
   list_all (\<lambda>kv. snd kv \<noteq> []) example_updates \<and>
   map fst example_updates = [''c'', ''b'', ''a'', ''d''] \<and>
   select_updates 3 [''origin/main'', ''origin/auto-update-b''] example_updates
     = Inr [(''d'', [example_version ''1'' ''u1'' ''2024-01-01'']),
            (''a'', [example_version ''2'' ''u2'' ''2024-03-01''])] \<and>
   select_updates 3 [''origin/main'', ''origin/auto-update-b''] example_updates
     = Inr (selector_spec 3 (set [''origin/main'', ''origin/auto-update-b'']) example_updates) \<and>
   select_updates 3 [''origin/main'', ''origin/auto-update-b''] (rev example_updates)
     = select_updates 3 [''origin/main'', ''origin/auto-update-b''] example_updates"
proof -
  have d: "distinct (map fst example_updates)"
    and ne: "list_all (\<lambda>kv. snd kv \<noteq> []) example_updates"
    and ks: "map fst example_updates = [''c'', ''b'', ''a'', ''d'']"
    by (simp_all add: example_updates_def)
  have run: "select_updates 3 [''origin/main'', ''origin/auto-update-b''] example_updates
     = Inr [(''d'', [example_version ''1'' ''u1'' ''2024-01-01'']),
            (''a'', [example_version ''2'' ''u2'' ''2024-03-01''])]"
    by (simp add: select_updates_def py_sorted_def oldest_key_def py_min_def py_slice_to_def
        startswith_def marker_def example_updates_def example_version_def)
  have p: "mset (rev example_updates) = mset example_updates" by simp
  from update_selector_oldest_first
    [of example_updates 3 "[''origin/main'', ''origin/auto-update-b'']", OF d ne]
    p d ne ks run
  show ?thesis by (simp del: set_simps mset_rev)
qed

section \<open>Properties of the archive scan\<close>

lemma sort_hd_Min:
  assumes "sort xs = u # us"
  shows "u = Min (set xs)"
proof -
  have "sorted (u # us)" using assms by (metis sorted_sort)
  then have "\<forall>y \<in> set (u # us). u \<le> y" by auto
  moreover have "set (u # us) = set xs" using assms by (metis set_sort)
  ultimately show ?thesis
    by (metis List.finite_set Min_eqI list.set_intros(1))
qed

lemma try_fetch_raises:
  assumes "fetch_raises fetch url"
  shows "\<exists>vars' e. try_fetch fetch url doi vars = (vars', Some e) \<and>
           var_name vars' = var_name vars \<and> var_resource_type vars' = var_resource_type vars"
  using assms
  by (auto simp: fetch_raises_def try_fetch_def split: fetched.splits parsed.splits yaml.splits)

text \<open>
  What the scanner does as the specification says. For a hit with at least one
  \<open>rdf.yaml\<close> file, \<open>rdf_source\<close> is the lexicographically first of its URLs, and
  with more than one such file the warning is printed. When the \<open>try\<close> body raises,
  the exception is caught and printed, the name is the version's DOI and the type is
  \<open>"unknown"\<close>; these are also the values for a hit with no \<open>rdf.yaml\<close> file.
\<close>

lemma raised_fetch_gives_defaults:
  "(rdf_urls h = [] \<longrightarrow>
      describe_hit fetch h =
        (\<lparr>var_rdf = YNull, var_name = YStr (h_doi h), var_resource_type = YStr ''unknown''\<rparr>,
         ''unknown'', [])) \<and>
   (rdf_urls h \<noteq> [] \<longrightarrow>
      fst (snd (describe_hit fetch h)) = Min (set (rdf_urls h)) \<and>
      (1 < length (rdf_urls h) \<longrightarrow>
         MultipleRdfSources \<in> set (snd (snd (describe_hit fetch h)))) \<and>
      (fetch_raises fetch (Min (set (rdf_urls h))) \<longrightarrow>
         var_name (fst (describe_hit fetch h)) = YStr (h_doi h) \<and>
         var_resource_type (fst (describe_hit fetch h)) = YStr ''unknown'' \<and>
         v_name (new_version_of h (fst (describe_hit fetch h)) (fst (snd (describe_hit fetch h))))
           = YStr (h_doi h) \<and>
         (\<exists>e. FailedToObtainVersionName e \<in> set (snd (snd (describe_hit fetch h))))))"
proof (intro conjI impI)
  assume "rdf_urls h = []"
  then show "describe_hit fetch h =
        (\<lparr>var_rdf = YNull, var_name = YStr (h_doi h), var_resource_type = YStr ''unknown''\<rparr>,
         ''unknown'', [])"
    by (simp add: describe_hit_def)
next
  assume ne: "rdf_urls h \<noteq> []"
  then obtain u us where s: "sort (rdf_urls h) = u # us"
    by (metis length_sort list.exhaust list.size(3) length_0_conv)
  then have u: "u = Min (set (rdf_urls h))" by (rule sort_hd_Min)
  obtain vars' ex where t: "try_fetch fetch u (h_doi h)
      \<lparr>var_rdf = YNull, var_name = YStr (h_doi h), var_resource_type = YStr ''unknown''\<rparr>
      = (vars', ex)" by (cases "try_fetch fetch u (h_doi h)
      \<lparr>var_rdf = YNull, var_name = YStr (h_doi h), var_resource_type = YStr ''unknown''\<rparr>")
  show src: "fst (snd (describe_hit fetch h)) = Min (set (rdf_urls h))"
    using s t u by (cases ex) (simp_all add: describe_hit_def Let_def)
  show "MultipleRdfSources \<in> set (snd (snd (describe_hit fetch h)))" if "1 < length (rdf_urls h)"
    using s t that by (cases ex) (simp_all add: describe_hit_def Let_def)
  assume "fetch_raises fetch (Min (set (rdf_urls h)))"
  then have "fetch_raises fetch u" by (simp add: u)
  from try_fetch_raises [OF this, of "h_doi h"
      "\<lparr>var_rdf = YNull, var_name = YStr (h_doi h), var_resource_type = YStr ''unknown''\<rparr>"] t
  obtain e where e: "ex = Some e" and n: "var_name vars' = YStr (h_doi h)"
    and ty: "var_resource_type vars' = YStr ''unknown''" by auto
  have d: "describe_hit fetch h = (vars', u,
      (if 1 < length (rdf_urls h) then [MultipleRdfSources] else []) @ [FailedToObtainVersionName e])"
    using s t e by (simp add: describe_hit_def Let_def)
  show "var_name (fst (describe_hit fetch h)) = YStr (h_doi h)" by (simp add: d n)
  show "var_resource_type (fst (describe_hit fetch h)) = YStr ''unknown''" by (simp add: d ty)
  show "v_name (new_version_of h (fst (describe_hit fetch h)) (fst (snd (describe_hit fetch h))))
           = YStr (h_doi h)" by (simp add: d n new_version_of_def)
  show "\<exists>e. FailedToObtainVersionName e \<in> set (snd (snd (describe_hit fetch h)))"
    by (rule exI [of _ e]) (simp add: d)
qed

lemma raised_fetch_example:
  "rdf_urls example_hit = [''https://zenodo.org/b/rdf.yaml'', ''https://zenodo.org/a/rdf.yaml''] \<and>
   fetch_raises example_fetch ''https://zenodo.org/a/rdf.yaml'' \<and>
   Min (set (rdf_urls example_hit)) = ''https://zenodo.org/a/rdf.yaml'' \<and>
   describe_hit example_fetch example_hit =
     (\<lparr>var_rdf = YStr ''not a mapping'', var_name = YStr ''10.5281/zenodo.101'',
       var_resource_type = YStr ''unknown''\<rparr>,
      ''https://zenodo.org/a/rdf.yaml'',
      [MultipleRdfSources, FailedToObtainVersionName AttributeError]) \<and>
   var_name (fst (describe_hit example_fetch example_hit)) = YStr ''10.5281/zenodo.101'' \<and>
   var_resource_type (fst (describe_hit example_fetch example_hit)) = YStr ''unknown''"
proof -
  have urls: "rdf_urls example_hit
      = [''https://zenodo.org/b/rdf.yaml'', ''https://zenodo.org/a/rdf.yaml'']"
    by (simp add: rdf_urls_def example_hit_def)
  have ff: "fetch_raises example_fetch ''https://zenodo.org/a/rdf.yaml''"
    by (simp add: fetch_raises_def example_fetch_def)
  have m: "Min (set (rdf_urls example_hit)) = ''https://zenodo.org/a/rdf.yaml''"
    by (simp add: urls)
  have d: "describe_hit example_fetch example_hit =
     (\<lparr>var_rdf = YStr ''not a mapping'', var_name = YStr ''10.5281/zenodo.101'',
       var_resource_type = YStr ''unknown''\<rparr>,
      ''https://zenodo.org/a/rdf.yaml'',
      [MultipleRdfSources, FailedToObtainVersionName AttributeError])"
    by (simp add: describe_hit_def urls try_fetch_def example_fetch_def Let_def)
       (simp add: example_hit_def)
  have doi: "h_doi example_hit = ''10.5281/zenodo.101''" by (simp add: example_hit_def)
  from raised_fetch_gives_defaults [of example_hit example_fetch] urls ff m doi
  have "var_name (fst (describe_hit example_fetch example_hit)) = YStr ''10.5281/zenodo.101'' \<and>
    var_resource_type (fst (describe_hit example_fetch example_hit)) = YStr ''unknown''"
    by simp
  with urls ff m d show ?thesis by simp
qed

text \<open>
  Claim C8. The claim has the type default to \<open>"unknown"\<close> whenever the fetch of the
  descriptor fails. The code does so when the \<open>try\<close> body raises
  (\<open>raised_fetch_gives_defaults\<close>), but line 129 does not test the status code as
  line 101 does: an error answer whose body parses as a mapping is read as the
  descriptor. In the example every request is answered with status 429 and a JSON
  error body. That fetch fails, yet nothing is raised or printed about it, the error
  body becomes \<open>rdf\<close>, and the type is null, not \<open>"unknown"\<close>. The name is the
  version's DOI, and the first URL and the warning are as the claim says.
\<close>

theorem error_answer_taken_as_descriptor:
  "rdf_urls example_hit = [''https://zenodo.org/b/rdf.yaml'', ''https://zenodo.org/a/rdf.yaml''] \<and>
   fetch_fails example_error_fetch ''https://zenodo.org/a/rdf.yaml'' \<and>
   \<not> fetch_raises example_error_fetch ''https://zenodo.org/a/rdf.yaml'' \<and>
   describe_hit example_error_fetch example_hit =
     (\<lparr>var_rdf = YDict [(''status'', YInt 429), (''message'', YStr ''Too many requests'')],
       var_name = YStr ''10.5281/zenodo.101'',
       var_resource_type = YNull\<rparr>,
      ''https://zenodo.org/a/rdf.yaml'',
      [MultipleRdfSources])"
proof -
  have urls: "rdf_urls example_hit
      = [''https://zenodo.org/b/rdf.yaml'', ''https://zenodo.org/a/rdf.yaml'']"
    by (simp add: rdf_urls_def example_hit_def)
  have f: "fetch_fails example_error_fetch ''https://zenodo.org/a/rdf.yaml''"
    "\<not> fetch_raises example_error_fetch ''https://zenodo.org/a/rdf.yaml''"
    by (simp_all add: fetch_fails_def fetch_raises_def example_error_fetch_def)
  have d: "describe_hit example_error_fetch example_hit =
     (\<lparr>var_rdf = YDict [(''status'', YInt 429), (''message'', YStr ''Too many requests'')],
       var_name = YStr ''10.5281/zenodo.101'',
       var_resource_type = YNull\<rparr>,
      ''https://zenodo.org/a/rdf.yaml'',
      [MultipleRdfSources])"
    by (simp add: describe_hit_def urls try_fetch_def example_error_fetch_def Let_def
          dict_get_def dict_get_default_def)
       (simp add: example_hit_def)
  from urls f d show ?thesis by simp
qed

section \<open>Properties of the aggregation\<close>

lemma dict_set_new: "map_of d k = None \<Longrightarrow> dict_set d k v = d @ [(k, v)]"
  by (induction d) (auto split: if_splits)

lemma dict_set_same: "map_of d k = Some v \<Longrightarrow> dict_set d k v = d"
  by (induction d) (auto split: if_splits)

lemma dict_get_dict_set: "dict_get (dict_set d k v) k' = (if k' = k then Some v else dict_get d k')"
  by (induction d) (auto simp: dict_get_def)

lemma collect_versions_single:
  assumes "v_status v = ''accepted''"
    and "resolve from_preview b (version_id v) c = Inr (v_path, c')"
  shows "collect_versions from_preview b rid [v] c =
     (case c_tree c' v_path of
        None \<Rightarrow> Inr (c'\<lparr>c_notes := c_notes c' @ [IgnoringMissing v_path]\<rparr>)
      | Some d \<Rightarrow>
          (case rdf_yaml d of
             None \<Rightarrow> Inr (c'\<lparr>c_notes := c_notes c' @ [IgnoringMissing v_path]\<rparr>)
           | Some (YDict doc) \<Rightarrow> Inr (c'\<lparr>c_latest := Some (add_version rid d doc (c_latest c'))\<rparr>)
           | Some _ \<Rightarrow> Inr (c'\<lparr>c_notes := c_notes c' @ [IgnoringNonDict v_path]\<rparr>)))"
  using assms by (simp split: option.splits yaml.splits)

text \<open>
  Claim C4, as amended. For an accepted version of an accepted resource:
  when the resource has a preview branch and the preview holds the version, the version
  is read from the preview's files, which are moved to \<open>gh-pages-update\<close>, and the
  branch is recorded; when the resource has a preview branch and the preview does not
  hold the version, the path stays the preview's, and the version is left out as
  missing, whatever \<open>gh-pages\<close> holds; only when the resource has no preview branch
  is the version read from \<open>gh-pages\<close>.
\<close>

theorem version_resolution:
  assumes "v_status v = ''accepted''"
  shows
  "(from_preview \<and> c_tree c (GhPagesPreviews b, version_id v) = Some d \<and>
      rdf_yaml d = Some (YDict doc) \<and> c_tree c (GhPagesUpdate, version_id v) = None \<longrightarrow>
      resolve from_preview b (version_id v) c =
        Inr ((GhPagesUpdate, version_id v),
             c\<lparr>c_processed := c_processed c @ [b],
               c_tree := (c_tree c)
                 ((GhPagesUpdate, version_id v) \<mapsto> d,
                  (GhPagesPreviews b, version_id v) \<mapsto> \<lparr>rdf_yaml = None, summary_files = []\<rparr>)\<rparr>) \<and>
      collect_versions from_preview b rid [v] c =
        Inr (c\<lparr>c_processed := c_processed c @ [b],
               c_tree := (c_tree c)
                 ((GhPagesUpdate, version_id v) \<mapsto> d,
                  (GhPagesPreviews b, version_id v) \<mapsto> \<lparr>rdf_yaml = None, summary_files = []\<rparr>),
               c_latest := Some (add_version rid d doc (c_latest c))\<rparr>)) \<and>
   (from_preview \<and> \<not> rdf_exists (c_tree c) (GhPagesPreviews b, version_id v) \<longrightarrow>
      resolve from_preview b (version_id v) c = Inr ((GhPagesPreviews b, version_id v), c) \<and>
      collect_versions from_preview b rid [v] c =
        Inr (c\<lparr>c_notes := c_notes c @ [IgnoringMissing (GhPagesPreviews b, version_id v)]\<rparr>)) \<and>
   (\<not> from_preview \<longrightarrow>
      resolve from_preview b (version_id v) c = Inr ((GhPages, version_id v), c) \<and>
      (c_tree c (GhPages, version_id v) = Some d \<and> rdf_yaml d = Some (YDict doc) \<longrightarrow>
         collect_versions from_preview b rid [v] c =
           Inr (c\<lparr>c_latest := Some (add_version rid d doc (c_latest c))\<rparr>)))"
proof (intro conjI impI)
  assume a: "from_preview \<and> c_tree c (GhPagesPreviews b, version_id v) = Some d \<and>
      rdf_yaml d = Some (YDict doc) \<and> c_tree c (GhPagesUpdate, version_id v) = None"
  then show r: "resolve from_preview b (version_id v) c =
        Inr ((GhPagesUpdate, version_id v),
             c\<lparr>c_processed := c_processed c @ [b],
               c_tree := (c_tree c)
                 ((GhPagesUpdate, version_id v) \<mapsto> d,
                  (GhPagesPreviews b, version_id v) \<mapsto> \<lparr>rdf_yaml = None, summary_files = []\<rparr>)\<rparr>)"
    by (simp add: resolve_def Let_def rdf_exists_def)
  show "collect_versions from_preview b rid [v] c =
        Inr (c\<lparr>c_processed := c_processed c @ [b],
               c_tree := (c_tree c)
                 ((GhPagesUpdate, version_id v) \<mapsto> d,
                  (GhPagesPreviews b, version_id v) \<mapsto> \<lparr>rdf_yaml = None, summary_files = []\<rparr>),
               c_latest := Some (add_version rid d doc (c_latest c))\<rparr>)"
    unfolding collect_versions_single [OF assms r] using a by simp
next
  assume a: "from_preview \<and> \<not> rdf_exists (c_tree c) (GhPagesPreviews b, version_id v)"
  then show r: "resolve from_preview b (version_id v) c = Inr ((GhPagesPreviews b, version_id v), c)"
    by (simp add: resolve_def Let_def)
  show "collect_versions from_preview b rid [v] c =
        Inr (c\<lparr>c_notes := c_notes c @ [IgnoringMissing (GhPagesPreviews b, version_id v)]\<rparr>)"
    unfolding collect_versions_single [OF assms r] using a
    by (auto simp: rdf_exists_def split: option.splits)
next
  assume a: "\<not> from_preview"
  then show r: "resolve from_preview b (version_id v) c = Inr ((GhPages, version_id v), c)"
    by (simp add: resolve_def)
  assume "c_tree c (GhPages, version_id v) = Some d \<and> rdf_yaml d = Some (YDict doc)"
  then show "collect_versions from_preview b rid [v] c =
           Inr (c\<lparr>c_latest := Some (add_version rid d doc (c_latest c))\<rparr>)"
    unfolding collect_versions_single [OF assms r] by simp
qed

text \<open>
  The claim as stated has a version that the preview lacks read from \<open>gh-pages\<close>.
  Here \<open>gh-pages\<close> holds version \<open>v1\<close> and the preview of its resource does not:
  the path is the preview's and the version is left out.
\<close>

theorem resolve_skips_canonical_counterexample:
  "rdf_exists (c_tree example_collecting) (GhPages, ''v1'') \<and>
   \<not> rdf_exists (c_tree example_collecting) (GhPagesPreviews ''gh-pages-auto-update-r'', ''v1'') \<and>
   resolve True ''gh-pages-auto-update-r'' ''v1'' example_collecting
     = Inr ((GhPagesPreviews ''gh-pages-auto-update-r'', ''v1''), example_collecting) \<and>
   collect_versions True ''gh-pages-auto-update-r'' ''r''
       [example_version ''v1'' ''u1'' ''2024-01-01''] example_collecting
     = Inr \<lparr>c_tree = example_tree, c_processed = [], c_latest = None,
            c_notes = [IgnoringMissing (GhPagesPreviews ''gh-pages-auto-update-r'', ''v1'')]\<rparr>"
  by (simp add: example_collecting_def example_tree_def example_dir_def example_version_def
      rdf_exists_def resolve_def Let_def)

theorem version_resolution_witness:
  "v_status (example_version ''v2'' ''u2'' ''2024-02-01'') = ''accepted'' \<and>
   c_tree example_collecting (GhPagesPreviews ''gh-pages-auto-update-r'', ''v2'')
     = Some (example_dir ''two'' ''model'') \<and>
   c_tree example_collecting (GhPagesUpdate, ''v2'') = None \<and>
   map_sum id fst (resolve True ''gh-pages-auto-update-r'' ''v2'' example_collecting)
     = Inr (GhPagesUpdate, ''v2'') \<and>
   map_sum id c_processed
       (collect_versions True ''gh-pages-auto-update-r'' ''r''
          [example_version ''v2'' ''u2'' ''2024-02-01''] example_collecting)
     = Inr [''gh-pages-auto-update-r''] \<and>
   \<not> rdf_exists (c_tree example_collecting) (GhPagesPreviews ''gh-pages-auto-update-r'', ''v1'') \<and>
   map_sum id fst (resolve True ''gh-pages-auto-update-r'' ''v1'' example_collecting)
     = Inr (GhPagesPreviews ''gh-pages-auto-update-r'', ''v1'') \<and>
   map_sum id c_latest
       (collect_versions True ''gh-pages-auto-update-r'' ''r''
          [example_version ''v1'' ''u1'' ''2024-01-01''] example_collecting)
     = Inr None \<and>
   c_tree example_collecting (GhPages, ''v1'') = Some (example_dir ''one'' ''model'') \<and>
   map_sum id fst (resolve False ''gh-pages-auto-update-r'' ''v1'' example_collecting)
     = Inr (GhPages, ''v1'') \<and>
   map_sum id c_latest
       (collect_versions False ''gh-pages-auto-update-r'' ''r''
          [example_version ''v1'' ''u1'' ''2024-01-01''] example_collecting)
     = Inr (Some (add_version ''r'' (example_dir ''one'' ''model'')
                    [(''name'', YStr ''one''), (''type'', YStr ''model'')] None))"
proof -
  have acc: "v_status (example_version ''v2'' ''u2'' ''2024-02-01'') = ''accepted''"
      "v_status (example_version ''v1'' ''u1'' ''2024-01-01'') = ''accepted''"
    and ids: "version_id (example_version ''v2'' ''u2'' ''2024-02-01'') = ''v2''"
      "version_id (example_version ''v1'' ''u1'' ''2024-01-01'') = ''v1''"
    by (simp_all add: example_version_def)
  have t: "c_tree example_collecting (GhPagesPreviews ''gh-pages-auto-update-r'', ''v2'')
        = Some (example_dir ''two'' ''model'')"
      "c_tree example_collecting (GhPagesUpdate, ''v2'') = None"
      "\<not> rdf_exists (c_tree example_collecting) (GhPagesPreviews ''gh-pages-auto-update-r'', ''v1'')"
      "c_tree example_collecting (GhPages, ''v1'') = Some (example_dir ''one'' ''model'')"
      "c_latest example_collecting = None"
    by (simp_all add: example_collecting_def example_tree_def rdf_exists_def)
  have d: "rdf_yaml (example_dir ''two'' ''model'')
        = Some (YDict [(''name'', YStr ''two''), (''type'', YStr ''model'')])"
      "rdf_yaml (example_dir ''one'' ''model'')
        = Some (YDict [(''name'', YStr ''one''), (''type'', YStr ''model'')])"
    by (simp_all add: example_dir_def)
  note A = version_resolution [OF acc(1), of True example_collecting "''gh-pages-auto-update-r''"
      "example_dir ''two'' ''model''" "[(''name'', YStr ''two''), (''type'', YStr ''model'')]"
      "''r''", THEN conjunct1, unfolded ids]
  note B = version_resolution [OF acc(2), of True example_collecting "''gh-pages-auto-update-r''"
      _ _ "''r''", THEN conjunct2, THEN conjunct1, unfolded ids]
  note C = version_resolution [OF acc(2), of False example_collecting "''gh-pages-auto-update-r''"
      "example_dir ''one'' ''model''" "[(''name'', YStr ''one''), (''type'', YStr ''model'')]"
      "''r''", THEN conjunct2, THEN conjunct2, unfolded ids]
  from A t d have a: "map_sum id fst (resolve True ''gh-pages-auto-update-r'' ''v2'' example_collecting)
     = Inr (GhPagesUpdate, ''v2'')"
    "map_sum id c_processed
       (collect_versions True ''gh-pages-auto-update-r'' ''r''
          [example_version ''v2'' ''u2'' ''2024-02-01''] example_collecting)
     = Inr [''gh-pages-auto-update-r'']"
    by (simp_all add: example_collecting_def)
  from B t have b: "map_sum id fst (resolve True ''gh-pages-auto-update-r'' ''v1'' example_collecting)
     = Inr (GhPagesPreviews ''gh-pages-auto-update-r'', ''v1'')"
    "map_sum id c_latest
       (collect_versions True ''gh-pages-auto-update-r'' ''r''
          [example_version ''v1'' ''u1'' ''2024-01-01''] example_collecting)
     = Inr None"
    by simp_all
  from C t d have c: "map_sum id fst (resolve False ''gh-pages-auto-update-r'' ''v1'' example_collecting)
     = Inr (GhPages, ''v1'')"
    "map_sum id c_latest
       (collect_versions False ''gh-pages-auto-update-r'' ''r''
          [example_version ''v1'' ''u1'' ''2024-01-01''] example_collecting)
     = Inr (Some (add_version ''r'' (example_dir ''one'' ''model'')
                    [(''name'', YStr ''one''), (''type'', YStr ''model'')] None))"
    by simp_all
  from acc(1) t(1,2,3,4) a b c show ?thesis by simp
qed

text \<open>
  Claim C9, as amended. Let the type of a resource's latest accepted version be
  hashable. If the type is not a key of \<open>attachments\<close>, line 113 adds it as a new
  key holding null; if it is a key whose value is not a list, line 113 stores the value
  it read and the mapping stays as it was. Either way the resource is appended to no
  list, the two counters are unchanged, and the resource is reported as ignored.
\<close>

theorem unlisted_type_is_not_filed:
  assumes "\<not> unhashable (type_of_latest l)"
  shows
  "(dict_get (attachments b) (type_of_latest l) = None \<longrightarrow>
      (\<exists>b'. file_latest r_path (Some l) b = Inr b' \<and>
         attachments b' = attachments b @ [(type_of_latest l, YNull)] \<and>
         n_accepted b' = n_accepted b \<and> n_accepted_versions b' = n_accepted_versions b \<and>
         b_notes b' = b_notes b @ [IgnoringType r_path (type_of_latest l)])) \<and>
   (dict_get (attachments b) (type_of_latest l) = Some x \<and> \<not> is_list x \<longrightarrow>
      (\<exists>b'. file_latest r_path (Some l) b = Inr b' \<and>
         attachments b' = attachments b \<and>
         n_accepted b' = n_accepted b \<and> n_accepted_versions b' = n_accepted_versions b \<and>
         b_notes b' = b_notes b @ [IgnoringType r_path (type_of_latest l)]))"
proof (intro conjI impI)
  assume "dict_get (attachments b) (type_of_latest l) = None"
  with assms show "\<exists>b'. file_latest r_path (Some l) b = Inr b' \<and>
         attachments b' = attachments b @ [(type_of_latest l, YNull)] \<and>
         n_accepted b' = n_accepted b \<and> n_accepted_versions b' = n_accepted_versions b \<and>
         b_notes b' = b_notes b @ [IgnoringType r_path (type_of_latest l)]"
    by (simp add: file_latest_def Let_def dict_get_def dict_set_new)
next
  assume "dict_get (attachments b) (type_of_latest l) = Some x \<and> \<not> is_list x"
  with assms show "\<exists>b'. file_latest r_path (Some l) b = Inr b' \<and>
         attachments b' = attachments b \<and>
         n_accepted b' = n_accepted b \<and> n_accepted_versions b' = n_accepted_versions b \<and>
         b_notes b' = b_notes b @ [IgnoringType r_path (type_of_latest l)]"
    by (cases x)
       (simp_all add: file_latest_def Let_def dict_get_def dict_set_same)
qed

text \<open>
  The claim as stated has null stored under every type that is not a key holding a
  list. Here the type \<open>model\<close> is a key holding a string: it keeps the string.
\<close>

theorem non_list_bucket_counterexample:
  "dict_get [(YStr ''model'', YStr ''x'')] (type_of_latest example_latest) = Some (YStr ''x'') \<and>
   map_sum id attachments
       (file_latest ''collection/r/resource.yaml'' (Some example_latest)
          (example_building [(YStr ''model'', YStr ''x'')]))
     = Inr [(YStr ''model'', YStr ''x'')]"
  by (simp add: file_latest_def Let_def type_of_latest_def dict_get_def dict_get_default_def
      example_latest_def add_version_def example_building_def)

theorem unlisted_type_is_not_filed_witness:
  "\<not> unhashable (type_of_latest example_latest) \<and>
   dict_get (attachments (example_building [(YStr ''dataset'', YList [])]))
     (type_of_latest example_latest) = None \<and>
   map_sum id attachments
       (file_latest ''collection/r/resource.yaml'' (Some example_latest)
          (example_building [(YStr ''dataset'', YList [])]))
     = Inr [(YStr ''dataset'', YList []), (YStr ''model'', YNull)] \<and>
   map_sum id n_accepted
       (file_latest ''collection/r/resource.yaml'' (Some example_latest)
          (example_building [(YStr ''dataset'', YList [])]))
     = Inr [] \<and>
   dict_get (attachments (example_building [(YStr ''model'', YNull)]))
     (type_of_latest example_latest) = Some YNull \<and>
   map_sum id attachments
       (file_latest ''collection/r/resource.yaml'' (Some example_latest)
          (example_building [(YStr ''model'', YNull)]))
     = Inr [(YStr ''model'', YNull)]"
proof -
  have ty: "type_of_latest example_latest = YStr ''model''"
    by (simp add: type_of_latest_def dict_get_default_def example_latest_def add_version_def)
  have h: "\<not> unhashable (type_of_latest example_latest)" by (simp add: ty)
  have g1: "dict_get (attachments (example_building [(YStr ''dataset'', YList [])]))
     (type_of_latest example_latest) = None"
    and g2: "dict_get (attachments (example_building [(YStr ''model'', YNull)]))
     (type_of_latest example_latest) = Some YNull"
    by (simp_all add: ty dict_get_def example_building_def)
  have at: "attachments (example_building [(YStr ''dataset'', YList [])]) = [(YStr ''dataset'', YList [])]"
    "attachments (example_building [(YStr ''model'', YNull)]) = [(YStr ''model'', YNull)]"
    "n_accepted (example_building [(YStr ''dataset'', YList [])]) = []"
    by (simp_all add: example_building_def)
  from unlisted_type_is_not_filed [OF h, where b = "example_building [(YStr ''dataset'', YList [])]"
      and r_path = "''collection/r/resource.yaml''", THEN conjunct1] g1
  obtain b' where 1: "file_latest ''collection/r/resource.yaml'' (Some example_latest)
          (example_building [(YStr ''dataset'', YList [])]) = Inr b'"
    "attachments b' = [(YStr ''dataset'', YList []), (YStr ''model'', YNull)]"
    "n_accepted b' = []"
    by (auto simp: at ty)
  from unlisted_type_is_not_filed [OF h, where b = "example_building [(YStr ''model'', YNull)]"
      and x = YNull and r_path = "''collection/r/resource.yaml''", THEN conjunct2] g2
  obtain b'' where 2: "file_latest ''collection/r/resource.yaml'' (Some example_latest)
          (example_building [(YStr ''model'', YNull)]) = Inr b''"
    "attachments b'' = [(YStr ''model'', YNull)]"
    by (auto simp: at)
  from h g1 g2 1 2 show ?thesis by simp
qed

lemma dict_get_default_dict_set:
  "dict_get_default (dict_set d k v) k' dflt = (if k' = k then v else dict_get_default d k' dflt)"
  using dict_get_dict_set [of d k v k']
  by (simp add: dict_get_def dict_get_default_def)

lemma dict_set_twice: "dict_set (dict_set d k v) k w = dict_set d k w"
  by (induction d) auto

lemma type_of_first_version:
  "type_of_latest (add_version rid d doc None) = dict_get_default doc ''type'' (YStr ''unknown'')"
  by (simp add: type_of_latest_def add_version_def dict_get_default_dict_set)

lemma entry_of_first_version:
  "\<exists>e. entry_of (add_version rid d doc None) = YDict e \<and>
       dict_get e ''previous_versions'' = Some (YList []) \<and>
       dict_get e ''resource_id'' = Some (YStr rid)"
  by (simp add: entry_of_def add_version_def dict_get_dict_set)

lemma length_previous_first_version: "l_previous (add_version rid d doc None) = []"
  by (simp add: add_version_def)

lemma collect_two_versions:
  assumes vs: "vs = [va, vb] \<or> vs = [vb, va]"
    and st: "v_status va = ''accepted''" "v_status vb = ''accepted''"
    and ne: "version_id va \<noteq> version_id vb"
    and nprev: "\<not> rdf_exists (c_tree c) (GhPagesPreviews pb, version_id va)"
    and prev: "c_tree c (GhPagesPreviews pb, version_id vb) = Some d" "rdf_yaml d = Some (YDict doc)"
    and upd: "c_tree c (GhPagesUpdate, version_id vb) = None"
  shows "\<exists>c'. collect_versions True pb rid vs c = Inr c' \<and>
           c_latest c' = Some (add_version rid d doc (c_latest c)) \<and>
           c_processed c' = c_processed c @ [pb]"
  using vs
proof
  assume "vs = [va, vb]"
  then show ?thesis
    using st ne nprev prev upd
    by (auto simp: resolve_def Let_def rdf_exists_def split: option.splits)
next
  assume "vs = [vb, va]"
  then show ?thesis
    using st ne nprev prev upd
    by (auto simp: resolve_def Let_def rdf_exists_def split: option.splits)
qed

text \<open>
  Claim C5, as amended. Take an accepted resource with exactly two accepted versions, a
  preview branch among the remote branches, one version that only \<open>gh-pages\<close> holds
  and one that the preview holds as a mapping, in either order; let the second one's
  type be a key of \<open>attachments\<close> holding a list, and let \<open>gh-pages-update\<close> have
  no directory for it yet. Then the version that only \<open>gh-pages\<close> holds is left out:
  exactly one entry is appended to that list, it is the preview's version with an empty
  \<open>previous_versions\<close>, the counters of the type go up by one resource and one
  version, and the preview branch is recorded once (it is recorded once for every
  version found in it, see \<open>preview_recorded_per_version\<close>).
\<close>

theorem two_versions_one_from_preview:
  assumes acc: "k_status r = ''accepted''"
    and vs: "k_versions r = [va, vb] \<or> k_versions r = [vb, va]"
    and st: "v_status va = ''accepted''" "v_status vb = ''accepted''"
    and ne: "version_id va \<noteq> version_id vb"
    and pb: "pb = ''gh-pages-auto-update-'' @ resource_id r"
    and rb: "''origin/'' @ pb \<in> set remote_branches"
    and canon: "rdf_exists (b_tree b) (GhPages, version_id va)"
    and nprev: "\<not> rdf_exists (b_tree b) (GhPagesPreviews pb, version_id va)"
    and prev: "b_tree b (GhPagesPreviews pb, version_id vb) = Some d"
      "rdf_yaml d = Some (YDict doc)"
    and upd: "b_tree b (GhPagesUpdate, version_id vb) = None"
    and ty: "ty = dict_get_default doc ''type'' (YStr ''unknown'')" "\<not> unhashable ty"
    and bucket: "dict_get (attachments b) ty = Some (YList xs)"
  shows "\<exists>b' e. collect_resource remote_branches (r_path, r) b = Inr b' \<and>
           attachments b' = dict_set (attachments b) ty (YList (xs @ [YDict e])) \<and>
           dict_get e ''previous_versions'' = Some (YList []) \<and>
           dict_get e ''resource_id'' = Some (YStr (resource_id r)) \<and>
           processed_gh_pages_previews b' = processed_gh_pages_previews b @ [pb] \<and>
           dict_get_default (n_accepted b') ty 0 = dict_get_default (n_accepted b) ty 0 + 1 \<and>
           dict_get_default (n_accepted_versions b') ty 0
             = dict_get_default (n_accepted_versions b) ty 0 + 1"
proof -
  let ?c = "\<lparr>c_tree = b_tree b, c_processed = processed_gh_pages_previews b,
             c_latest = None, c_notes = b_notes b\<rparr>"
  let ?l = "add_version (resource_id r) d doc None"
  from collect_two_versions [of "k_versions r" va vb ?c pb d doc "resource_id r"]
    vs st ne nprev prev upd
  obtain c' where c': "collect_versions True pb (resource_id r) (k_versions r) ?c = Inr c'"
    "c_latest c' = Some ?l" "c_processed c' = processed_gh_pages_previews b @ [pb]"
    by auto
  obtain e where e: "entry_of ?l = YDict e"
    "dict_get e ''previous_versions'' = Some (YList [])"
    "dict_get e ''resource_id'' = Some (YStr (resource_id r))"
    using entry_of_first_version by blast
  let ?b = "b\<lparr>b_tree := c_tree c', processed_gh_pages_previews := c_processed c',
               b_notes := c_notes c'\<rparr>"
  have "file_latest r_path (Some ?l) ?b =
      Inr (?b\<lparr>attachments := dict_set (attachments b) ty (YList (xs @ [YDict e])),
             n_accepted := dict_set (n_accepted b) ty (dict_get_default (n_accepted b) ty 0 + 1),
             n_accepted_versions :=
               dict_set (n_accepted_versions b) ty
                 (dict_get_default (n_accepted_versions b) ty 0 + 1)\<rparr>)"
    using ty bucket e(1)
    by (simp add: file_latest_def Let_def type_of_first_version dict_set_twice
        length_previous_first_version)
  moreover have "collect_resource remote_branches (r_path, r) b = file_latest r_path (Some ?l) ?b"
    using acc pb rb c' by (simp add: collect_resource_def Let_def)
  ultimately have "collect_resource remote_branches (r_path, r) b =
      Inr (?b\<lparr>attachments := dict_set (attachments b) ty (YList (xs @ [YDict e])),
             n_accepted := dict_set (n_accepted b) ty (dict_get_default (n_accepted b) ty 0 + 1),
             n_accepted_versions :=
               dict_set (n_accepted_versions b) ty
                 (dict_get_default (n_accepted_versions b) ty 0 + 1)\<rparr>)"
    by simp
  then show ?thesis
    using e(2,3) c'(3)
    by (intro exI [of _ "?b\<lparr>attachments := dict_set (attachments b) ty (YList (xs @ [YDict e])),
             n_accepted := dict_set (n_accepted b) ty (dict_get_default (n_accepted b) ty 0 + 1),
             n_accepted_versions :=
               dict_set (n_accepted_versions b) ty
                 (dict_get_default (n_accepted_versions b) ty 0 + 1)\<rparr>"] exI [of _ e])
       (simp add: dict_get_default_dict_set)
qed

text \<open>
  The claim as stated has \<open>previous_versions\<close> of length 1. In the example
  \<open>gh-pages\<close> holds only \<open>v1\<close> and the preview only \<open>v2\<close>: the entry is that of
  \<open>v2\<close> and its \<open>previous_versions\<close> is empty.
\<close>

theorem canonical_version_dropped_counterexample:
  "rdf_exists example_tree (GhPages, ''v1'') \<and>
   \<not> rdf_exists example_tree (GhPagesPreviews ''gh-pages-auto-update-r'', ''v1'') \<and>
   rdf_exists example_tree (GhPagesPreviews ''gh-pages-auto-update-r'', ''v2'') \<and>
   \<not> rdf_exists example_tree (GhPages, ''v2'') \<and>
   map_sum id attachments
       (collect [''origin/main'', ''origin/gh-pages-auto-update-r'']
          [(YStr ''model'', YList [])] [example_known] example_tree)
     = Inr [(YStr ''model'',
             YList [YDict [(''name'', YStr ''two''), (''type'', YStr ''model''),
                           (''validation_summaries'',
                            YDict [(''bioimageio'', YDict [(''status'', YStr ''passed'')])]),
                           (''resource_id'', YStr ''r''),
                           (''previous_versions'', YList [])]])] \<and>
   map_sum id processed_gh_pages_previews
       (collect [''origin/main'', ''origin/gh-pages-auto-update-r'']
          [(YStr ''model'', YList [])] [example_known] example_tree)
     = Inr [''gh-pages-auto-update-r'']"
  by (simp add: collect_def collect_resource_def file_latest_def resolve_def Let_def
      rdf_exists_def example_known_def example_tree_def example_dir_def example_version_def
      add_version_def val_summaries_def summary_of_def entry_of_def type_of_latest_def
      dict_get_def dict_get_default_def)

theorem two_versions_one_from_preview_witness:
  "k_status (snd example_known) = ''accepted'' \<and>
   k_versions (snd example_known)
     = [example_version ''v2'' ''u2'' ''2024-02-01'', example_version ''v1'' ''u1'' ''2024-01-01''] \<and>
   rdf_exists (b_tree (example_building [(YStr ''model'', YList [])])) (GhPages, ''v1'') \<and>
   \<not> rdf_exists (b_tree (example_building [(YStr ''model'', YList [])]))
       (GhPagesPreviews ''gh-pages-auto-update-r'', ''v1'') \<and>
   b_tree (example_building [(YStr ''model'', YList [])])
       (GhPagesPreviews ''gh-pages-auto-update-r'', ''v2'') = Some (example_dir ''two'' ''model'') \<and>
   map_sum id processed_gh_pages_previews
       (collect_resource [''origin/main'', ''origin/gh-pages-auto-update-r''] example_known
          (example_building [(YStr ''model'', YList [])]))
     = Inr [''gh-pages-auto-update-r''] \<and>
   map_sum id n_accepted_versions
       (collect_resource [''origin/main'', ''origin/gh-pages-auto-update-r''] example_known
          (example_building [(YStr ''model'', YList [])]))
     = Inr [(YStr ''model'', 1)]"
proof -
  let ?b = "example_building [(YStr ''model'', YList [])]"
  let ?va = "example_version ''v1'' ''u1'' ''2024-01-01''"
  let ?vb = "example_version ''v2'' ''u2'' ''2024-02-01''"
  let ?doc = "[(''name'', YStr ''two''), (''type'', YStr ''model'')]"
  have k: "k_status (snd example_known) = ''accepted''"
    "k_versions (snd example_known) = [?vb, ?va]"
    "resource_id (snd example_known) = ''r''"
    "example_known = (''collection/r/resource.yaml'', snd example_known)"
    by (simp_all add: example_known_def)
  have v: "v_status ?va = ''accepted''" "v_status ?vb = ''accepted''"
    "version_id ?va = ''v1''" "version_id ?vb = ''v2''"
    by (simp_all add: example_version_def)
  have t: "rdf_exists (b_tree ?b) (GhPages, ''v1'')"
    "\<not> rdf_exists (b_tree ?b) (GhPagesPreviews ''gh-pages-auto-update-r'', ''v1'')"
    "b_tree ?b (GhPagesPreviews ''gh-pages-auto-update-r'', ''v2'') = Some (example_dir ''two'' ''model'')"
    "b_tree ?b (GhPagesUpdate, ''v2'') = None"
    by (simp_all add: example_building_def example_tree_def rdf_exists_def example_dir_def)
  have d: "rdf_yaml (example_dir ''two'' ''model'') = Some (YDict ?doc)"
    by (simp add: example_dir_def)
  have ty: "YStr ''model'' = dict_get_default ?doc ''type'' (YStr ''unknown'')"
    "\<not> unhashable (YStr ''model'')"
    by (simp_all add: dict_get_default_def)
  have bk: "dict_get (attachments ?b) (YStr ''model'') = Some (YList [])"
    "processed_gh_pages_previews ?b = []" "n_accepted_versions ?b = []"
    by (simp_all add: example_building_def dict_get_def)
  have counted: "map_sum id n_accepted_versions
       (collect_resource [''origin/main'', ''origin/gh-pages-auto-update-r''] example_known ?b)
     = Inr [(YStr ''model'', 1)]"
    by (simp add: collect_resource_def file_latest_def resolve_def Let_def
      rdf_exists_def example_known_def example_tree_def example_dir_def example_version_def
      add_version_def val_summaries_def summary_of_def entry_of_def type_of_latest_def
      dict_get_def dict_get_default_def example_building_def)
  have vs: "k_versions (snd example_known) = [?va, ?vb] \<or> k_versions (snd example_known) = [?vb, ?va]"
    by (simp add: k(2))
  have ne: "version_id ?va \<noteq> version_id ?vb" by (simp add: v)
  have pb: "''gh-pages-auto-update-r'' = ''gh-pages-auto-update-'' @ resource_id (snd example_known)"
    by (simp add: k(3))
  have rb: "''origin/'' @ ''gh-pages-auto-update-r''
      \<in> set [''origin/main'', ''origin/gh-pages-auto-update-r'']"
    by simp
  have t': "rdf_exists (b_tree ?b) (GhPages, version_id ?va)"
    "\<not> rdf_exists (b_tree ?b) (GhPagesPreviews ''gh-pages-auto-update-r'', version_id ?va)"
    "b_tree ?b (GhPagesPreviews ''gh-pages-auto-update-r'', version_id ?vb)
       = Some (example_dir ''two'' ''model'')"
    and t'': "b_tree ?b (GhPagesUpdate, version_id ?vb) = None"
    using t by (simp_all add: v)
  have "\<exists>b' e. collect_resource [''origin/main'', ''origin/gh-pages-auto-update-r'']
          (''collection/r/resource.yaml'', snd example_known) ?b = Inr b' \<and>
        attachments b' = dict_set (attachments ?b) (YStr ''model'') (YList ([] @ [YDict e])) \<and>
        dict_get e ''previous_versions'' = Some (YList []) \<and>
        dict_get e ''resource_id'' = Some (YStr (resource_id (snd example_known))) \<and>
        processed_gh_pages_previews b' = processed_gh_pages_previews ?b @ [''gh-pages-auto-update-r''] \<and>
        dict_get_default (n_accepted b') (YStr ''model'') 0
          = dict_get_default (n_accepted ?b) (YStr ''model'') 0 + 1 \<and>
        dict_get_default (n_accepted_versions b') (YStr ''model'') 0
          = dict_get_default (n_accepted_versions ?b) (YStr ''model'') 0 + 1"
    by (rule two_versions_one_from_preview [OF k(1) vs v(1,2) ne pb rb t' d t'' ty bk(1)])
  then obtain b' where "collect_resource [''origin/main'', ''origin/gh-pages-auto-update-r'']
      (''collection/r/resource.yaml'', snd example_known) ?b = Inr b'"
    "processed_gh_pages_previews b' = processed_gh_pages_previews ?b @ [''gh-pages-auto-update-r'']"
    by blast
  then have "map_sum id processed_gh_pages_previews
       (collect_resource [''origin/main'', ''origin/gh-pages-auto-update-r''] example_known ?b)
     = Inr [''gh-pages-auto-update-r'']"
    using k(4) bk(2) by simp
  with k(1,2) t(1,2,3) counted show ?thesis by simp
qed

lemma preview_recorded_per_version:
  "map_sum id processed_gh_pages_previews
       (collect [''origin/gh-pages-auto-update-r''] [(YStr ''model'', YList [])] [example_known]
          (example_tree((GhPagesPreviews ''gh-pages-auto-update-r'', ''v1'')
             \<mapsto> example_dir ''one'' ''model'')))
     = Inr [''gh-pages-auto-update-r'', ''gh-pages-auto-update-r'']"
  by (simp add: collect_def collect_resource_def file_latest_def resolve_def Let_def
      rdf_exists_def example_known_def example_tree_def example_dir_def example_version_def
      add_version_def val_summaries_def summary_of_def entry_of_def type_of_latest_def
      dict_get_def dict_get_default_def)

section \<open>Properties of the JSON projection\<close>

lemma convert_for_json_cases:
  "convert_for_json k (YFloat PosInf) = Item k (YStr ''inf'')"
  "convert_for_json k (YFloat NegInf) = Item k (YStr ''-inf'')"
  "convert_for_json k (YTime t) = Item k (YStr (isoformat t))"
  "convert_for_json k (YFloat (Finite q)) = Unchanged"
  "convert_for_json k (YFloat NaN) = Unchanged"
  by (simp_all add: convert_for_json_def number_strings_def py_float_def)

lemma nan_token_never_chosen: "first_equal v number_strings \<noteq> Some ''nan''"
proof (cases v)
  case (YFloat x)
  then show ?thesis
    by (cases x) (simp_all add: number_strings_def py_float_def)
qed (simp_all add: number_strings_def py_float_def)

lemma infinity_round_trips:
  "write_json (YDict [(''x'', YFloat PosInf)]) = Inr (YDict [(''x'', YStr ''inf'')])"
  by (simp add: write_json_def json_dump_def visit_def convert_for_json_cases)

text \<open>
  Claim C7. The projection replaces positive and negative infinity by \<open>"inf"\<close> and
  \<open>"-inf"\<close> and a datetime by its ISO-8601 text (\<open>convert_for_json_cases\<close>), and
  the encoder refuses what is left of the non-finite floats. The claim also has NaN
  replaced by \<open>"nan"\<close>, which line 139 prepares and the comment of line 138
  announces; but \<open>v == float("nan")\<close> holds for no \<open>v\<close>
  (\<open>nan_token_never_chosen\<close>), so a NaN is left in the document and the whole
  serialization fails on it. The theorem evaluates the mapping with one NaN value.
\<close>

theorem nan_is_not_replaced:
  "convert_for_json ''x'' (YFloat NaN) = Unchanged \<and>
   remap (YDict [(''x'', YFloat NaN)]) = YDict [(''x'', YFloat NaN)] \<and>
   write_json (YDict [(''x'', YFloat NaN)])
     = Inl (ValueError ''Out of range float values are not JSON compliant'')"
  by (simp add: write_json_def json_dump_def visit_def convert_for_json_cases)

end
